theory Spec2Isabelle
  imports Main "HOL-Library.AList" "HOL-Library.Multiset"
begin

section \<open>Python values and strings\<close>

text \<open>
  The \<open>/ai\<close> handler of \<open>src/app.py\<close> works on Python strings and on the values that
  \<open>json.loads\<close> returns. A Python \<open>str\<close> is modelled as a \<open>string\<close>, one \<open>char\<close> per code
  point (code points below 256). A decoded JSON value is a \<open>json\<close>; a Python \<open>dict\<close> is an
  association list with distinct keys in insertion order, read with \<open>map_of\<close> and assigned
  with \<open>AList.update\<close> (an existing key keeps its place, a new key goes last).
\<close>

datatype pyfloat = Dec int int | NaN | PosInf | NegInf

datatype json =
    JNull
  | JBool bool
  | JInt int
  | JFloat pyfloat
  | JStr string
  | JList "json list"
  | JDict "(string \<times> json) list"

text \<open>
  An exception is its class and the text that \<open>str(e)\<close> gives. Every class here derives
  from \<open>Exception\<close>, so \<open>except Exception\<close> catches each of them.
\<close>

datatype exn =
    AttributeError string
  | IndexError string
  | UnknownTimeZoneError string
  | OtherException string

fun str_exn :: "exn \<Rightarrow> string" where
  "str_exn (AttributeError m) = m"
| "str_exn (IndexError m) = m"
| "str_exn (UnknownTimeZoneError m) = m"
| "str_exn (OtherException m) = m"

fun py_type_name :: "json \<Rightarrow> string" where
  "py_type_name JNull = ''NoneType''"
| "py_type_name (JBool b) = ''bool''"
| "py_type_name (JInt i) = ''int''"
| "py_type_name (JFloat f) = ''float''"
| "py_type_name (JStr s) = ''str''"
| "py_type_name (JList xs) = ''list''"
| "py_type_name (JDict kvs) = ''dict''"

definition no_attribute :: "json \<Rightarrow> string \<Rightarrow> exn" where
  "no_attribute v attr =
     AttributeError ([CHR 0x27] @ py_type_name v @ [CHR 0x27] @ '' object has no attribute ''
       @ [CHR 0x27] @ attr @ [CHR 0x27])"

text \<open>Python's truth value of a decoded JSON value (\<open>if not x\<close>, \<open>x and y\<close>).\<close>

fun py_truthy :: "json \<Rightarrow> bool" where
  "py_truthy JNull = False"
| "py_truthy (JBool b) = b"
| "py_truthy (JInt i) = (i \<noteq> 0)"
| "py_truthy (JFloat (Dec m e)) = (m \<noteq> 0)"
| "py_truthy (JFloat f) = True"
| "py_truthy (JStr s) = (s \<noteq> [])"
| "py_truthy (JList xs) = (xs \<noteq> [])"
| "py_truthy (JDict kvs) = (kvs \<noteq> [])"

text \<open>
  \<open>str.replace(old, new)\<close>: the occurrences of \<open>old\<close> are replaced from left to right
  and do not overlap. With an empty \<open>old\<close>, Python puts \<open>new\<close> before every character
  and at the end.
\<close>

function str_replace :: "string \<Rightarrow> string \<Rightarrow> string \<Rightarrow> string" where
  "str_replace old new [] = (if old = [] then new else [])"
| "str_replace old new (c # cs) =
     (if old = [] then new @ c # str_replace old new cs
      else if take (length old) (c # cs) = old
      then new @ str_replace old new (drop (length old) (c # cs))
      else c # str_replace old new cs)"
  by pat_completeness auto
termination
  by (relation "measure (\<lambda>(old, new, s). length s)") auto

section \<open>The response parser of the \<open>/ai\<close> handler\<close>

text \<open>
  \<open>re.search(r'\[.*\]', assistant_msg, re.DOTALL)\<close>. The search tries the start positions
  from left to right. At a start position the pattern needs a \<open>[\<close>; then \<open>.*\<close> is greedy
  and, with \<open>DOTALL\<close>, takes any character, so it gives characters back only until a
  \<open>]\<close> follows: \<open>greedy_to_rbracket\<close> is the longest prefix that ends in \<open>]\<close>.
\<close>

fun greedy_to_rbracket :: "string \<Rightarrow> string option" where
  "greedy_to_rbracket [] = None"
| "greedy_to_rbracket (c # cs) =
     (case greedy_to_rbracket cs of
        Some m \<Rightarrow> Some (c # m)
      | None \<Rightarrow> if c = CHR '']'' then Some [c] else None)"

fun match_at :: "string \<Rightarrow> string option" where
  "match_at [] = None"
| "match_at (c # cs) =
     (if c = CHR ''['' then map_option ((#) c) (greedy_to_rbracket cs) else None)"

fun re_search :: "string \<Rightarrow> string option" where
  "re_search [] = None"
| "re_search (c # cs) =
     (case match_at (c # cs) of Some m \<Rightarrow> Some m | None \<Rightarrow> re_search cs)"

definition message_command :: "string \<Rightarrow> json" where
  "message_command text = JDict [(''command'', JStr ''MESSAGE''), (''text'', JStr text)]"

text \<open>
  Lines 446 to 462. \<open>json.loads\<close> is a parameter \<open>loads\<close>: \<open>None\<close> when it raises (every
  exception is caught by \<open>except (json.JSONDecodeError, Exception)\<close>).
\<close>

definition parse_commands :: "(string \<Rightarrow> json option) \<Rightarrow> string \<Rightarrow> json list" where
  "parse_commands loads assistant_msg =
     (case re_search assistant_msg of
        Some json_str \<Rightarrow>
          (case loads json_str of
             None \<Rightarrow> [message_command assistant_msg]
           | Some (JList cmds) \<Rightarrow> cmds
           | Some other \<Rightarrow> [message_command assistant_msg])
      | None \<Rightarrow> [message_command assistant_msg])"

text \<open>Lines 464 to 471: the repair of the \<open>start\<close> and \<open>end\<close> fields.\<close>

definition normalize_date :: "string \<Rightarrow> string" where
  "normalize_date s = str_replace ''TT'' ''T'' (str_replace '' '' ''T'' s)"

definition fix_field :: "string \<Rightarrow> (string \<times> json) list \<Rightarrow> (string \<times> json) list" where
  "fix_field k command =
     (case map_of command k of
        Some (JStr s) \<Rightarrow>
          if py_truthy (JStr s) then AList.update k (JStr (normalize_date s)) command
          else command
      | other \<Rightarrow> command)"

text \<open>Only a \<open>dict\<close> has \<open>get\<close>: on any other element \<open>command.get\<close> raises.\<close>

fun fix_command :: "json \<Rightarrow> exn + json" where
  "fix_command (JDict command) = Inr (JDict (fix_field ''end'' (fix_field ''start'' command)))"
| "fix_command other = Inl (no_attribute other ''get'')"

fun fix_dates :: "json list \<Rightarrow> exn + json list" where
  "fix_dates [] = Inr []"
| "fix_dates (command # rest) =
     (case fix_command command of
        Inl e \<Rightarrow> Inl e
      | Inr command' \<Rightarrow>
          (case fix_dates rest of Inl e \<Rightarrow> Inl e | Inr rest' \<Rightarrow> Inr (command' # rest')))"

section \<open>A decoder for \<open>json.loads\<close>\<close>

text \<open>
  The handler decodes with \<open>json.loads\<close> of the Python library. The handler's model takes
  the decoder as a parameter; \<open>json_loads\<close> is the decoder of the library as a function,
  for running the handler on a concrete text. It follows \<open>json.scanner\<close> and
  \<open>json.decoder\<close>: white space is blank, tab, line feed and carriage return; \<open>NaN\<close>,
  \<open>Infinity\<close> and \<open>-Infinity\<close> are accepted; a control character inside a string is
  not; \<open>dict(pairs)\<close> keeps the last value of a repeated key at the place of the first.
  A number with a fraction or an exponent is kept as a decimal mantissa and exponent. The
  recursion takes fuel; \<open>json_loads\<close> gives it twice the length of the text and one more,
  which is always enough (\<open>json_loads_fuel\<close> below).
  The recursion limit of Python and its limit on the digits of an integer are not
  modelled, and a float is not rounded.
  A four-digit escape of a code point beyond 255 has no \<open>char\<close> and is refused here.
\<close>

definition is_ws :: "char \<Rightarrow> bool" where
  "is_ws c = (c = CHR '' '' \<or> c = CHR 0x09 \<or> c = CHR 0x0A \<or> c = CHR 0x0D)"

definition skip_ws :: "string \<Rightarrow> string" where
  "skip_ws s = dropWhile is_ws s"

definition ord :: "char \<Rightarrow> nat" where
  "ord c = of_char c"

definition is_digit :: "char \<Rightarrow> bool" where
  "is_digit c = (48 \<le> ord c \<and> ord c \<le> 57)"

definition digit_val :: "char \<Rightarrow> nat" where
  "digit_val c = ord c - 48"

definition digits_val :: "string \<Rightarrow> nat" where
  "digits_val ds = foldl (\<lambda>n d. 10 * n + digit_val d) 0 ds"

definition hex_val :: "char \<Rightarrow> nat option" where
  "hex_val c =
     (if is_digit c then Some (digit_val c)
      else if 97 \<le> ord c \<and> ord c \<le> 102 then Some (ord c - 87)
      else if 65 \<le> ord c \<and> ord c \<le> 70 then Some (ord c - 55)
      else None)"

definition backslash :: "char \<Rightarrow> char option" where
  "backslash e =
     (if e = CHR 0x22 then Some (CHR 0x22)
      else if e = CHR 0x5C then Some (CHR 0x5C)
      else if e = CHR ''/'' then Some (CHR ''/'')
      else if e = CHR ''b'' then Some (CHR 0x08)
      else if e = CHR ''f'' then Some (CHR 0x0C)
      else if e = CHR ''n'' then Some (CHR 0x0A)
      else if e = CHR ''r'' then Some (CHR 0x0D)
      else if e = CHR ''t'' then Some (CHR 0x09)
      else None)"

definition decode_uXXXX :: "char \<Rightarrow> char \<Rightarrow> char \<Rightarrow> char \<Rightarrow> char option" where
  "decode_uXXXX a b c d =
     (case (hex_val a, hex_val b, hex_val c, hex_val d) of
        (Some x, Some y, Some z, Some w) \<Rightarrow>
          (let n = ((x * 16 + y) * 16 + z) * 16 + w in if n < 256 then Some (char_of n) else None)
      | other \<Rightarrow> None)"

fun scanstring :: "string \<Rightarrow> (string \<times> string) option" where
  "scanstring [] = None"
| "scanstring (c # cs) =
     (if c = CHR 0x22 then Some ([], cs)
      else if c = CHR 0x5C then
        (case cs of
           [] \<Rightarrow> None
         | e # es \<Rightarrow>
             if e = CHR ''u'' then
               (case es of
                  a # b # x # y # rest \<Rightarrow>
                    (case decode_uXXXX a b x y of
                       None \<Rightarrow> None
                     | Some ch \<Rightarrow> map_option (\<lambda>(str, r). (ch # str, r)) (scanstring rest))
                | other \<Rightarrow> None)
             else
               (case backslash e of
                  None \<Rightarrow> None
                | Some ch \<Rightarrow> map_option (\<lambda>(str, r). (ch # str, r)) (scanstring es)))
      else if ord c < 32 then None
      else map_option (\<lambda>(str, r). (c # str, r)) (scanstring cs))"

datatype 'a scan = Parsed 'a string | Invalid | NoFuel

text \<open>The number pattern \<open>(-?(?:0|[1-9]\d*))(\.\d+)?([eE][-+]?\d+)?\<close>, group by group.\<close>

definition match_integer :: "string \<Rightarrow> (bool \<times> string \<times> string) option" where
  "match_integer s =
     (let (neg, s1) = (case s of
                         c # cs \<Rightarrow> if c = CHR ''-'' then (True, cs) else (False, s)
                       | [] \<Rightarrow> (False, s))
      in case s1 of
           [] \<Rightarrow> None
         | c # cs \<Rightarrow>
             if c = CHR ''0'' then Some (neg, [c], cs)
             else if is_digit c then Some (neg, takeWhile is_digit s1, dropWhile is_digit s1)
             else None)"

definition match_frac :: "string \<Rightarrow> string \<times> string" where
  "match_frac s =
     (case s of
        c # cs \<Rightarrow>
          if c = CHR ''.'' \<and> takeWhile is_digit cs \<noteq> []
          then (takeWhile is_digit cs, dropWhile is_digit cs)
          else ([], s)
      | [] \<Rightarrow> ([], s))"

definition match_exp :: "string \<Rightarrow> int option \<times> string" where
  "match_exp s =
     (case s of
        c # cs \<Rightarrow>
          if c = CHR ''e'' \<or> c = CHR ''E'' then
            (let (neg, ds) = (case cs of
                                d # r \<Rightarrow>
                                  if d = CHR ''-'' then (True, r)
                                  else if d = CHR ''+'' then (False, r)
                                  else (False, cs)
                              | [] \<Rightarrow> (False, cs))
             in if takeWhile is_digit ds = [] then (None, s)
                else (Some ((if neg then - 1 else 1) * int (digits_val (takeWhile is_digit ds))),
                      dropWhile is_digit ds))
          else (None, s)
      | [] \<Rightarrow> (None, s))"

definition scan_number :: "string \<Rightarrow> (json \<times> string) option" where
  "scan_number s =
     (case match_integer s of
        None \<Rightarrow> None
      | Some (neg, ip, s1) \<Rightarrow>
          (let (fp, s2) = match_frac s1;
               (ex, s3) = match_exp s2;
               sign = (if neg then - 1 else 1)
           in if fp = [] \<and> ex = None then Some (JInt (sign * int (digits_val ip)), s3)
              else Some (JFloat (Dec (sign * int (digits_val (ip @ fp)))
                                     ((case ex of None \<Rightarrow> 0 | Some e \<Rightarrow> e) - int (length fp))),
                         s3)))"

definition dict_of :: "(string \<times> json) list \<Rightarrow> (string \<times> json) list" where
  "dict_of pairs = foldl (\<lambda>d (k, v). AList.update k v d) [] pairs"

fun scan_once :: "nat \<Rightarrow> string \<Rightarrow> json scan"
  and array_items :: "nat \<Rightarrow> string \<Rightarrow> json list scan"
  and object_items :: "nat \<Rightarrow> string \<Rightarrow> (string \<times> json) list scan"
where
  "scan_once 0 s = NoFuel"
| "scan_once (Suc n) s =
     (case s of
        [] \<Rightarrow> Invalid
      | c # cs \<Rightarrow>
          if c = CHR 0x22 then
            (case scanstring cs of
               None \<Rightarrow> Invalid
             | Some (str, rest) \<Rightarrow> Parsed (JStr str) rest)
          else if c = CHR ''{'' then
            (case skip_ws cs of
               [] \<Rightarrow> Invalid
             | d # ds \<Rightarrow>
                 if d = CHR ''}'' then Parsed (JDict []) ds
                 else if d = CHR 0x22 then
                   (case object_items n ds of
                      Parsed pairs rest \<Rightarrow> Parsed (JDict (dict_of pairs)) rest
                    | Invalid \<Rightarrow> Invalid
                    | NoFuel \<Rightarrow> NoFuel)
                 else Invalid)
          else if c = CHR ''['' then
            (case skip_ws cs of
               [] \<Rightarrow> Invalid
             | d # ds \<Rightarrow>
                 if d = CHR '']'' then Parsed (JList []) ds
                 else
                   (case array_items n (d # ds) of
                      Parsed vals rest \<Rightarrow> Parsed (JList vals) rest
                    | Invalid \<Rightarrow> Invalid
                    | NoFuel \<Rightarrow> NoFuel))
          else if take 4 s = ''null'' then Parsed JNull (drop 4 s)
          else if take 4 s = ''true'' then Parsed (JBool True) (drop 4 s)
          else if take 5 s = ''false'' then Parsed (JBool False) (drop 5 s)
          else
            (case scan_number s of
               Some (num, rest) \<Rightarrow> Parsed num rest
             | None \<Rightarrow>
                 if take 3 s = ''NaN'' then Parsed (JFloat NaN) (drop 3 s)
                 else if take 8 s = ''Infinity'' then Parsed (JFloat PosInf) (drop 8 s)
                 else if take 9 s = ''-Infinity'' then Parsed (JFloat NegInf) (drop 9 s)
                 else Invalid))"
| "array_items 0 s = NoFuel"
| "array_items (Suc n) s =
     (case scan_once n s of
        Parsed val rest \<Rightarrow>
          (case skip_ws rest of
             [] \<Rightarrow> Invalid
           | d # ds \<Rightarrow>
               if d = CHR '']'' then Parsed [val] ds
               else if d = CHR '','' then
                 (case array_items n (skip_ws ds) of
                    Parsed vals rest' \<Rightarrow> Parsed (val # vals) rest'
                  | Invalid \<Rightarrow> Invalid
                  | NoFuel \<Rightarrow> NoFuel)
               else Invalid)
      | Invalid \<Rightarrow> Invalid
      | NoFuel \<Rightarrow> NoFuel)"
| "object_items 0 s = NoFuel"
| "object_items (Suc n) s =
     (case scanstring s of
        None \<Rightarrow> Invalid
      | Some (key, after_key) \<Rightarrow>
          (case skip_ws after_key of
             [] \<Rightarrow> Invalid
           | c # cs \<Rightarrow>
               if c \<noteq> CHR '':'' then Invalid
               else
                 (case scan_once n (skip_ws cs) of
                    Parsed val rest \<Rightarrow>
                      (case skip_ws rest of
                         [] \<Rightarrow> Invalid
                       | d # ds \<Rightarrow>
                           if d = CHR ''}'' then Parsed [(key, val)] ds
                           else if d = CHR '','' then
                             (case skip_ws ds of
                                [] \<Rightarrow> Invalid
                              | q # qs \<Rightarrow>
                                  if q \<noteq> CHR 0x22 then Invalid
                                  else
                                    (case object_items n qs of
                                       Parsed pairs rest' \<Rightarrow> Parsed ((key, val) # pairs) rest'
                                     | Invalid \<Rightarrow> Invalid
                                     | NoFuel \<Rightarrow> NoFuel))
                           else Invalid)
                  | Invalid \<Rightarrow> Invalid
                  | NoFuel \<Rightarrow> NoFuel)))"

definition json_loads :: "string \<Rightarrow> json option" where
  "json_loads s =
     (case scan_once (2 * length s + 1) (skip_ws s) of
        Parsed obj rest \<Rightarrow> if skip_ws rest = [] then Some obj else None
      | Invalid \<Rightarrow> None
      | NoFuel \<Rightarrow> None)"

section \<open>The system prompt\<close>

definition get_ai_prompt :: string where
  "get_ai_prompt =
     ''\<newline>'' @
     ''You are Drvyn, a helpful productivity assistant. You can schedule tasks and events for users.\<newline>'' @
     ''\<newline>'' @
     ''IMPORTANT: You MUST ALWAYS respond with ONLY a valid JSON array. No other text.\<newline>'' @
     ''\<newline>'' @
     ''For scheduling requests, use this exact format:\<newline>'' @
     ''[\<newline>'' @
     ''    {\<newline>'' @
     ''        \"command\": \"ADD\",\<newline>'' @
     ''        \"start\": \"2025-07-30T10:00:00\",\<newline>'' @
     ''        \"end\": \"2025-07-30T11:00:00\",\<newline>'' @
     ''        \"title\": \"Task Name\"\<newline>'' @
     ''    },\<newline>'' @
     ''    {\<newline>'' @
     ''        \"command\": \"MESSAGE\", \<newline>'' @
     ''        \"text\": \"I've scheduled your task for tomorrow at 10 AM.\"\<newline>'' @
     ''    }\<newline>'' @
     '']\<newline>'' @
     ''\<newline>'' @
     ''ALWAYS include a MESSAGE command after scheduling to confirm what you did.\<newline>'' @
     ''\<newline>'' @
     ''Scheduling rules:\<newline>'' @
     ''- \"today\" = current date\<newline>'' @
     ''- \"tomorrow\" = next day\<newline>'' @
     ''- \"later today\" = 2-3 hours from now\<newline>'' @
     ''- \"this afternoon\" = 2-5 PM today\<newline>'' @
     ''- \"this evening\" = 6-9 PM today\<newline>'' @
     ''- Default duration: 1 hour\<newline>'' @
     ''- Default time: 9 AM if not specified\<newline>'' @
     ''- Use ISO format: YYYY-MM-DDTHH:MM:SS (MUST use T as separator, no spaces)\<newline>'' @
     ''\<newline>'' @
     ''For non-scheduling questions, respond with:\<newline>'' @
     ''[\<newline>'' @
     ''    {\<newline>'' @
     ''        \"command\": \"MESSAGE\",\<newline>'' @
     ''        \"text\": \"Your helpful response here\"\<newline>'' @
     ''    }\<newline>'' @
     '']\<newline>'' @
     ''\<newline>'' @
     ''Commands: ADD (schedule), REMOVE (delete), MESSAGE (respond)\<newline>''"

section \<open>The data model and the outside world\<close>

text \<open>
  The rows of the \<open>Conversation\<close> and \<open>Event\<close> tables with the columns the handler uses,
  and the logged-in user. A \<open>DateTime\<close> column is a number of microseconds.
\<close>

record conversation =
  conv_user_id :: nat
  conv_role :: string
  conv_content :: string
  conv_timestamp :: int

record event =
  event_title :: string
  event_start_time :: int
  event_end_time :: int
  event_user_id :: nat

record user =
  user_id :: nat
  user_timezone :: "string option"

record database =
  conversations :: "conversation list"
  events :: "event list"

text \<open>One entry of the \<open>messages\<close> list, \<open>{"role": ..., "content": ...}\<close>.\<close>

datatype message = Message (role: string) (content: string)

text \<open>
  What the handler does to the outside world, in the order it does it: a committed
  \<open>Conversation\<close> row, or a request to a provider (its key and its payload).
\<close>

datatype effect =
    Commit conversation
  | OpenAICall string "message list"
  | CohereCall string string

datatype response = Response (status: nat) (body: json)

text \<open>
  Everything the handler reads from outside the repository is a field of \<open>env\<close>: the
  process environment, the two provider clients (\<open>Inl\<close> when the call raises; the
  OpenAI client answers with the \<open>content\<close> of each choice, \<open>None\<close> for a null one, the
  Cohere client with the text of each generation), \<open>json.loads\<close>, the time zone
  database of \<open>pytz\<close>, the clocks and \<open>strftime\<close>. For an \<open>input\<close> that is not a string,
  \<open>column_text\<close> is what the database driver stores in the \<open>Text\<close> column (\<open>Inl\<close> when it
  refuses the value) and \<open>py_str\<close> is \<open>str(user_input)\<close>. The database accepts every
  commit of a row of strings.
\<close>

record env =
  AI_PROVIDER :: string
  getenv_OPENAI_API_KEY :: "string option"
  getenv_COHERE_API_KEY :: "string option"
  openai_create :: "string \<Rightarrow> message list \<Rightarrow> exn + string option list"
  cohere_generate :: "string \<Rightarrow> string \<Rightarrow> exn + string list"
  loads :: "string \<Rightarrow> json option"
  known_timezone :: "string \<Rightarrow> bool"
  local_time :: "string \<Rightarrow> string"
  strftime :: "string \<Rightarrow> int \<Rightarrow> string"
  now :: int
  utcnow_user_turn :: int
  utcnow_assistant_turn :: int
  column_text :: "json \<Rightarrow> exn + string"
  py_str :: "json \<Rightarrow> string"

section \<open>Prompt assembly\<close>

text \<open>
  \<open>order_by(column.desc())\<close>. SQL leaves the order of rows with equal keys open; the model
  keeps them in table order.
\<close>

definition order_by_desc :: "('a \<Rightarrow> int) \<Rightarrow> 'a list \<Rightarrow> 'a list" where
  "order_by_desc column rows = sort_key (\<lambda>r. - column r) rows"

text \<open>Lines 353 to 355.\<close>

definition recent_conversations :: "nat \<Rightarrow> database \<Rightarrow> conversation list" where
  "recent_conversations uid db =
     rev (take 5 (order_by_desc conv_timestamp
                    (filter (\<lambda>c. conv_user_id c = uid) (conversations db))))"

definition seven_days :: int where
  "seven_days = 7 * 86400 * 1000000"

text \<open>Lines 365 to 371.\<close>

definition user_events :: "env \<Rightarrow> nat \<Rightarrow> database \<Rightarrow> event list" where
  "user_events env uid db =
     take 10 (order_by_desc event_start_time
                (filter (\<lambda>e. event_start_time e \<ge> now env - seven_days)
                   (filter (\<lambda>e. event_user_id e = uid) (events db))))"

fun str_join :: "string \<Rightarrow> string list \<Rightarrow> string" where
  "str_join sep [] = []"
| "str_join sep [x] = x"
| "str_join sep (x # y # ys) = x @ sep @ str_join sep (y # ys)"

definition event_summary :: "env \<Rightarrow> event list \<Rightarrow> string" where
  "event_summary env evs =
     (if evs \<noteq> [] then
        str_join '' | ''
          (map (\<lambda>e. event_title e @ '' from ''
                     @ strftime env ''%Y-%m-%d %H:%M'' (event_start_time e)
                     @ '' to '' @ strftime env ''%H:%M'' (event_end_time e)) evs)
      else ''None'')"

text \<open>
  \<open>current_user.timezone or 'UTC'\<close>, and the column as an f-string prints it.
\<close>

definition timezone_or_utc :: "user \<Rightarrow> string" where
  "timezone_or_utc u =
     (case user_timezone u of None \<Rightarrow> ''UTC'' | Some tz \<Rightarrow> if tz = [] then ''UTC'' else tz)"

definition timezone_text :: "user \<Rightarrow> string" where
  "timezone_text u = (case user_timezone u of None \<Rightarrow> ''None'' | Some tz \<Rightarrow> tz)"

definition pytz_timezone :: "env \<Rightarrow> string \<Rightarrow> exn + string" where
  "pytz_timezone env name =
     (if known_timezone env name then Inr name else Inl (UnknownTimeZoneError name))"

text \<open>Lines 358 to 379, once the time zone is known.\<close>

definition build_messages :: "env \<Rightarrow> user \<Rightarrow> string \<Rightarrow> database \<Rightarrow> message list" where
  "build_messages env current_user user_tz db =
     (let current_time = local_time env user_tz;
          summary = event_summary env (user_events env (user_id current_user) db);
          context_message = ''Current time: '' @ current_time @ ''. User''
              @ [CHR 0x27] @ ''s timezone: '' @ timezone_text current_user
              @ ''. Current events: '' @ summary
      in [Message ''system'' get_ai_prompt, Message ''user'' context_message]
         @ map (\<lambda>conv. Message (conv_role conv) (conv_content conv))
               (recent_conversations (user_id current_user) db))"

section \<open>The provider adapter\<close>

text \<open>
  \<open>str.strip()\<close> removes the white space of Python at both ends; below code point 256
  that is 9 to 13, 28 to 32, 133 and 160.
\<close>

definition is_space :: "char \<Rightarrow> bool" where
  "is_space c =
     ((9 \<le> ord c \<and> ord c \<le> 13) \<or> (28 \<le> ord c \<and> ord c \<le> 32) \<or> ord c = 133 \<or> ord c = 160)"

definition py_strip :: "string \<Rightarrow> string" where
  "py_strip s = rev (dropWhile is_space (rev (dropWhile is_space s)))"

text \<open>\<open>not api_key\<close>: the variable is unset or empty.\<close>

definition key_unset :: "string option \<Rightarrow> bool" where
  "key_unset k = (case k of None \<Rightarrow> True | Some s \<Rightarrow> s = [])"

definition openai_not_configured :: string where
  "openai_not_configured =
     ''I'm sorry, but the OpenAI API key is not configured. Please set up your OpenAI API key in the .env file.''"

definition cohere_not_configured :: string where
  "cohere_not_configured =
     ''I'm sorry, but the Cohere API key is not configured. Please set up your Cohere API key in the .env file.''"

definition no_provider_configured :: string where
  "no_provider_configured =
     ''I'm sorry, but no AI provider is configured. Please set up either OpenAI or Cohere API key in the .env file.''"

definition openai_error_prefix :: string where
  "openai_error_prefix = ''I'm sorry, but there was an error with the OpenAI service: ''"

definition cohere_error_prefix :: string where
  "cohere_error_prefix = ''I'm sorry, but there was an error with the Cohere service: ''"

text \<open>
  The body of the \<open>try\<close> of lines 388 to 396: the client call, then
  \<open>response.choices[0].message.content.strip()\<close>.
\<close>

definition openai_try :: "env \<Rightarrow> string \<Rightarrow> message list \<Rightarrow> exn + string" where
  "openai_try env api_key messages =
     (case openai_create env api_key messages of
        Inl e \<Rightarrow> Inl e
      | Inr choices \<Rightarrow>
          (case choices of
             [] \<Rightarrow> Inl (IndexError ''list index out of range'')
           | choice # others \<Rightarrow>
               (case choice of
                  None \<Rightarrow> Inl (no_attribute JNull ''strip'')
                | Some text \<Rightarrow> Inr (py_strip text))))"

text \<open>Lines 409 to 418: the single prompt of the Cohere branch.\<close>

definition prompt_line :: "message \<Rightarrow> string" where
  "prompt_line msg =
     (if role msg = ''user'' then ''User: '' @ content msg @ ''\<newline>''
      else if role msg = ''assistant'' then ''Assistant: '' @ content msg @ ''\<newline>''
      else [])"

definition full_prompt :: "message list \<Rightarrow> string \<Rightarrow> string" where
  "full_prompt messages user_input =
     get_ai_prompt @ ''\<newline>\<newline>''
       @ concat (map prompt_line (drop 1 messages))
       @ ''User: '' @ user_input
       @ ''\<newline>Assistant: Respond with ONLY valid JSON array. For scheduling requests, ALWAYS include an ADD command.''"

definition cohere_try :: "env \<Rightarrow> string \<Rightarrow> message list \<Rightarrow> string \<Rightarrow> exn + string" where
  "cohere_try env api_key messages user_input =
     (case cohere_generate env api_key (full_prompt messages user_input) of
        Inl e \<Rightarrow> Inl e
      | Inr generations \<Rightarrow>
          (case generations of
             [] \<Rightarrow> Inl (IndexError ''list index out of range'')
           | text # others \<Rightarrow> Inr (py_strip text)))"

text \<open>
  Lines 382 to 434. The result is the value of \<open>assistant_msg\<close>, or the exception that
  leaves the block, and the provider requests that were made.
\<close>

definition provider :: "env \<Rightarrow> message list \<Rightarrow> string \<Rightarrow> (exn + string) \<times> effect list" where
  "provider env messages user_input =
     (if AI_PROVIDER env = ''openai'' then
        (let api_key = getenv_OPENAI_API_KEY env
         in if key_unset api_key \<or> api_key = Some ''your-openai-api-key-here''
            then (Inr openai_not_configured, [])
            else
              (case api_key of
                 None \<Rightarrow> (Inr openai_not_configured, [])
               | Some k \<Rightarrow>
                   (case openai_try env k messages of
                      Inr text \<Rightarrow> (Inr text, [OpenAICall k messages])
                    | Inl e \<Rightarrow> (Inr (openai_error_prefix @ str_exn e), [OpenAICall k messages]))))
      else if AI_PROVIDER env = ''cohere'' then
        (let api_key = getenv_COHERE_API_KEY env
         in if key_unset api_key \<or> api_key = Some ''your-cohere-api-key-here''
            then (Inr cohere_not_configured, [])
            else
              (case api_key of
                 None \<Rightarrow> (Inr cohere_not_configured, [])
               | Some k \<Rightarrow>
                   (case cohere_try env k messages user_input of
                      Inr text \<Rightarrow> (Inr text, [CohereCall k (full_prompt messages user_input)])
                    | Inl e \<Rightarrow> (Inr (cohere_error_prefix @ str_exn e),
                                [CohereCall k (full_prompt messages user_input)]))))
      else (Inr no_provider_configured, []))"

section \<open>The \<open>/ai\<close> handler\<close>

definition error_response :: "nat \<Rightarrow> string \<Rightarrow> response" where
  "error_response code msg = Response code (JDict [(''error'', JStr msg)])"

text \<open>
  \<open>request.json.get("input")\<close>. \<open>request_json\<close> is the decoded body, \<open>None\<close> when the
  request has none (\<open>request.json\<close> is then \<open>None\<close> or raises, by the version of Flask);
  only a \<open>dict\<close> has \<open>get\<close>.
\<close>

definition request_input :: "json option \<Rightarrow> exn + json" where
  "request_input request_json =
     (case request_json of
        Some (JDict kvs) \<Rightarrow> Inr (case map_of kvs ''input'' of Some v \<Rightarrow> v | None \<Rightarrow> JNull)
      | Some other \<Rightarrow> Inl (no_attribute other ''get'')
      | None \<Rightarrow> Inl (no_attribute JNull ''get''))"

definition bind_text :: "env \<Rightarrow> json \<Rightarrow> exn + string" where
  "bind_text env v = (case v of JStr s \<Rightarrow> Inr s | other \<Rightarrow> column_text env other)"

definition format_value :: "env \<Rightarrow> json \<Rightarrow> string" where
  "format_value env v = (case v of JStr s \<Rightarrow> s | other \<Rightarrow> py_str env other)"

text \<open>The two rows the handler builds, lines 344 to 348 and 437 to 441.\<close>

definition user_conversation :: "env \<Rightarrow> user \<Rightarrow> string \<Rightarrow> conversation" where
  "user_conversation env current_user text =
     \<lparr>conv_user_id = user_id current_user, conv_role = ''user'', conv_content = text,
      conv_timestamp = utcnow_user_turn env\<rparr>"

definition assistant_conversation :: "env \<Rightarrow> user \<Rightarrow> string \<Rightarrow> conversation" where
  "assistant_conversation env current_user assistant_msg =
     \<lparr>conv_user_id = user_id current_user, conv_role = ''assistant'',
      conv_content = assistant_msg, conv_timestamp = utcnow_assistant_turn env\<rparr>"

text \<open>\<open>db.session.add(row)\<close> and \<open>db.session.commit()\<close>.\<close>

definition add_commit :: "conversation \<Rightarrow> database \<Rightarrow> database" where
  "add_commit row db = db\<lparr>conversations := conversations db @ [row]\<rparr>"

text \<open>
  Lines 445 to 473: parse, repair the dates, answer. \<open>jsonify\<close> is taken to succeed on
  every decoded value.
\<close>

definition respond :: "env \<Rightarrow> string \<Rightarrow> exn + response" where
  "respond env assistant_msg =
     (case fix_dates (parse_commands (loads env) assistant_msg) of
        Inl e \<Rightarrow> Inl e
      | Inr commands \<Rightarrow> Inr (Response 200 (JDict [(''commands'', JList commands)])))"

text \<open>
  Lines 352 to 473, after the user's turn is committed: the result of the \<open>try\<close> block,
  the database and the effects of this part.
\<close>

definition ai_pipeline ::
  "env \<Rightarrow> user \<Rightarrow> json \<Rightarrow> database \<Rightarrow> (exn + response) \<times> database \<times> effect list" where
  "ai_pipeline env current_user user_input db =
     (case pytz_timezone env (timezone_or_utc current_user) of
        Inl e \<Rightarrow> (Inl e, db, [])
      | Inr user_tz \<Rightarrow>
          (let messages = build_messages env current_user user_tz db
           in case provider env messages (format_value env user_input) of
                (Inl e, calls) \<Rightarrow> (Inl e, db, calls)
              | (Inr assistant_msg, calls) \<Rightarrow>
                  (respond env assistant_msg,
                   add_commit (assistant_conversation env current_user assistant_msg) db,
                   calls @ [Commit (assistant_conversation env current_user assistant_msg)])))"

text \<open>Lines 338 to 473: the \<open>try\<close> block of the handler.\<close>

definition ai_try ::
  "env \<Rightarrow> user \<Rightarrow> json option \<Rightarrow> database \<Rightarrow> (exn + response) \<times> database \<times> effect list" where
  "ai_try env current_user request_json db =
     (case request_input request_json of
        Inl e \<Rightarrow> (Inl e, db, [])
      | Inr user_input \<Rightarrow>
          if \<not> py_truthy user_input then (Inr (error_response 400 ''No input provided''), db, [])
          else
            (case bind_text env user_input of
               Inl e \<Rightarrow> (Inl e, db, [])
             | Inr text \<Rightarrow>
                 (let (result, db', effects) =
                        ai_pipeline env current_user user_input
                          (add_commit (user_conversation env current_user text) db)
                  in (result, db', Commit (user_conversation env current_user text) # effects))))"

text \<open>The handler with its \<open>except Exception\<close> of lines 475 to 477.\<close>

definition ai :: "env \<Rightarrow> user \<Rightarrow> json option \<Rightarrow> database \<Rightarrow> response \<times> database \<times> effect list" where
  "ai env current_user request_json db =
     (case ai_try env current_user request_json db of
        (Inl e, db', effects) \<Rightarrow> (error_response 500 ''Failed to process request'', db', effects)
      | (Inr r, db', effects) \<Rightarrow> (r, db', effects))"

section \<open>An example environment\<close>

text \<open>
  An environment to run the handler in: OpenAI is the provider and answers with a JSON
  array, the Cohere client raises, the decoder is \<open>json_loads\<close>, and \<open>UTC\<close> is the one
  known time zone.
\<close>

definition example_env :: env where
  "example_env =
     \<lparr>AI_PROVIDER = ''openai'',
      getenv_OPENAI_API_KEY = Some ''sk-example'',
      getenv_COHERE_API_KEY = Some ''co-example'',
      openai_create = (\<lambda>api_key messages. Inr [Some '' [{\"command\": \"MESSAGE\", \"text\": \"Hello\"}, 7] '']),
      cohere_generate = (\<lambda>api_key prompt. Inl (OtherException ''connection refused'')),
      loads = json_loads,
      known_timezone = (\<lambda>name. name = ''UTC''),
      local_time = (\<lambda>tz. ''2025-07-30 09:00:00 UTC''),
      strftime = (\<lambda>format t. []),
      now = 0,
      utcnow_user_turn = 100,
      utcnow_assistant_turn = 101,
      column_text = (\<lambda>v. Inl (OtherException ''type is not supported'')),
      py_str = (\<lambda>v. [])\<rparr>"

definition example_user :: user where
  "example_user = \<lparr>user_id = 1, user_timezone = Some ''UTC''\<rparr>"

text \<open>
  A database: seven turns of user 1, out of order in the table, and one turn of user 2.
\<close>

definition turn :: "nat \<Rightarrow> string \<Rightarrow> string \<Rightarrow> int \<Rightarrow> conversation" where
  "turn uid r c t = \<lparr>conv_user_id = uid, conv_role = r, conv_content = c, conv_timestamp = t\<rparr>"

definition example_db :: database where
  "example_db =
     \<lparr>conversations =
        [turn 1 ''user'' ''a'' 10, turn 1 ''assistant'' ''b'' 20, turn 2 ''user'' ''x'' 25,
         turn 1 ''user'' ''e'' 50, turn 1 ''assistant'' ''d'' 40, turn 1 ''user'' ''c'' 30,
         turn 1 ''assistant'' ''f'' 60, turn 1 ''user'' ''g'' 70],
      events = []\<rparr>"

section \<open>Predicates of the properties\<close>

text \<open>
  \<open>has_sep_triple s\<close>: somewhere in \<open>s\<close> three characters in a row are each a blank or
  a \<open>T\<close>. \<open>has_TT\<close> and \<open>has_T3\<close>: two, three \<open>T\<close> in a row.
\<close>

definition is_sep :: "char \<Rightarrow> bool" where
  "is_sep c = (c = CHR '' '' \<or> c = CHR ''T'')"

fun has_sep_triple :: "string \<Rightarrow> bool" where
  "has_sep_triple (a # b # c # cs) =
     ((is_sep a \<and> is_sep b \<and> is_sep c) \<or> has_sep_triple (b # c # cs))"
| "has_sep_triple cs = False"

fun has_TT :: "string \<Rightarrow> bool" where
  "has_TT (a # b # cs) = ((a = CHR ''T'' \<and> b = CHR ''T'') \<or> has_TT (b # cs))"
| "has_TT cs = False"

fun has_T3 :: "string \<Rightarrow> bool" where
  "has_T3 (a # b # c # cs) =
     ((a = CHR ''T'' \<and> b = CHR ''T'' \<and> c = CHR ''T'') \<or> has_T3 (b # c # cs))"
| "has_T3 cs = False"

text \<open>A \<open>dict\<close> among the decoded values; a provider request among the effects.\<close>

fun is_dict :: "json \<Rightarrow> bool" where
  "is_dict (JDict kvs) = True"
| "is_dict other = False"

fun is_provider_call :: "effect \<Rightarrow> bool" where
  "is_provider_call (Commit row) = False"
| "is_provider_call (OpenAICall api_key messages) = True"
| "is_provider_call (CohereCall api_key prompt) = True"

text \<open>
  The credential of the active provider is absent or is the placeholder of the
  \<open>.env\<close> template, and the fixed text that the handler answers with then.
\<close>

definition credential_missing :: "env \<Rightarrow> bool" where
  "credential_missing env =
     ((AI_PROVIDER env = ''openai'' \<and>
         (key_unset (getenv_OPENAI_API_KEY env)
            \<or> getenv_OPENAI_API_KEY env = Some ''your-openai-api-key-here''))
      \<or> (AI_PROVIDER env = ''cohere'' \<and>
         (key_unset (getenv_COHERE_API_KEY env)
            \<or> getenv_COHERE_API_KEY env = Some ''your-cohere-api-key-here'')))"

definition not_configured_text :: "env \<Rightarrow> string" where
  "not_configured_text env =
     (if AI_PROVIDER env = ''openai'' then openai_not_configured else cohere_not_configured)"

section \<open>Properties\<close>

subsection \<open>Date repair\<close>

lemma str_replace_space:
  "str_replace '' '' ''T'' s = map (\<lambda>c. if c = CHR '' '' then CHR ''T'' else c) s"
  by (induction s) auto

lemma replace_TT_simps:
  "str_replace ''TT'' ''T'' [] = []"
  "str_replace ''TT'' ''T'' [c] = [c]"
  "str_replace ''TT'' ''T'' (CHR ''T'' # CHR ''T'' # cs) = CHR ''T'' # str_replace ''TT'' ''T'' cs"
  "a \<noteq> CHR ''T'' \<or> b \<noteq> CHR ''T'' \<Longrightarrow>
     str_replace ''TT'' ''T'' (a # b # cs) = a # str_replace ''TT'' ''T'' (b # cs)"
  by auto

text \<open>The induction that follows the replacement: a pair \<open>TT\<close> is consumed whole.\<close>

lemma replace_TT_induct [case_names Nil One TT Other]:
  assumes "P []" and "\<And>c. P [c]"
    and "\<And>cs. P cs \<Longrightarrow> P (CHR ''T'' # CHR ''T'' # cs)"
    and "\<And>a b cs. a \<noteq> CHR ''T'' \<or> b \<noteq> CHR ''T'' \<Longrightarrow> P (b # cs) \<Longrightarrow> P (a # b # cs)"
  shows "P s"
proof (induction s rule: length_induct)
  case (1 xs)
  show ?case
  proof (cases xs)
    case Nil
    then show ?thesis using assms(1) by simp
  next
    case outer: (Cons a ys)
    show ?thesis
    proof (cases ys)
      case Nil
      then show ?thesis using outer assms(2) by simp
    next
      case (Cons b cs)
      show ?thesis
      proof (cases "a = CHR ''T'' \<and> b = CHR ''T''")
        case True
        have "P cs" using 1 outer Cons by simp
        then show ?thesis using assms(3) True outer Cons by simp
      next
        case False
        have "P (b # cs)" using 1 outer Cons by simp
        then show ?thesis using assms(4)[of a b cs] False outer Cons by blast
      qed
    qed
  qed
qed

lemma replace_TT_set: "set (str_replace ''TT'' ''T'' s) \<subseteq> set s"
  by (induction s rule: replace_TT_induct)
     (auto simp del: str_replace.simps simp: replace_TT_simps)

lemma replace_TT_length: "length (str_replace ''TT'' ''T'' s) \<le> length s"
  by (induction s rule: replace_TT_induct)
     (auto simp del: str_replace.simps simp: replace_TT_simps)

lemma replace_TT_head: "\<exists>ys. str_replace ''TT'' ''T'' (c # cs) = c # ys"
  by (cases cs) auto

lemma replace_TT_fixpoint: "str_replace ''TT'' ''T'' u = u \<longleftrightarrow> \<not> has_TT u"
proof (induction u rule: replace_TT_induct)
  case (TT cs)
  have "length (str_replace ''TT'' ''T'' cs) \<le> length cs"
    by (rule replace_TT_length)
  then have "str_replace ''TT'' ''T'' cs \<noteq> CHR ''T'' # cs"
    by auto
  then show ?case
    by (simp del: str_replace.simps add: replace_TT_simps)
next
  case (Other a b cs)
  then show ?case
    by (auto simp del: str_replace.simps simp: replace_TT_simps)
qed auto

lemma has_TT_replace_TT: "has_TT (str_replace ''TT'' ''T'' t) \<longleftrightarrow> has_T3 t"
proof (induction t rule: replace_TT_induct)
  case (TT cs)
  show ?case
  proof (cases cs)
    case Nil
    then show ?thesis
      by (simp del: str_replace.simps add: replace_TT_simps)
  next
    case (Cons c ds)
    obtain ys where ys: "str_replace ''TT'' ''T'' (c # ds) = c # ys"
      using replace_TT_head by blast
    show ?thesis
    proof (cases "c = CHR ''T''")
      case True
      then show ?thesis using Cons ys
        by (simp del: str_replace.simps add: replace_TT_simps)
    next
      case False
      have "has_T3 (CHR ''T'' # CHR ''T'' # c # ds) = has_T3 (c # ds)"
        using False by (cases ds) auto
      then show ?thesis using TT Cons ys False
        by (simp del: str_replace.simps add: replace_TT_simps)
    qed
  qed
next
  case (Other a b cs)
  obtain ys where ys: "str_replace ''TT'' ''T'' (b # cs) = b # ys"
    using replace_TT_head by blast
  have "has_T3 (a # b # cs) = has_T3 (b # cs)"
    using Other(1) by (cases cs) auto
  moreover have "has_TT (a # b # ys) = has_TT (b # ys)"
    using Other(1) by auto
  ultimately show ?case using Other ys
    by (simp del: str_replace.simps add: replace_TT_simps)
qed auto

lemma has_T3_map_space:
  "has_T3 (map (\<lambda>c. if c = CHR '' '' then CHR ''T'' else c) s) = has_sep_triple s"
  by (induction s rule: has_sep_triple.induct) (auto simp: is_sep_def)

lemma map_space_id:
  "CHR '' '' \<notin> set u \<Longrightarrow> map (\<lambda>c. if c = CHR '' '' then CHR ''T'' else c) u = u"
  by (induction u) auto

text \<open>
  C3, as amended. The repair of a \<open>start\<close> or \<open>end\<close> string is idempotent exactly on the
  strings that have no three characters in a row that are each a blank or a \<open>T\<close>: for
  every such string, repairing twice gives the same string as repairing once, and for
  every other string it gives a different one.
\<close>

theorem normalize_date_idempotent_iff:
  "normalize_date (normalize_date s) = normalize_date s \<longleftrightarrow> \<not> has_sep_triple s"
proof -
  let ?f = "\<lambda>c. if c = CHR '' '' then CHR ''T'' else c"
  let ?t = "map ?f s"
  have "CHR '' '' \<notin> set ?t"
    by auto
  then have "CHR '' '' \<notin> set (str_replace ''TT'' ''T'' ?t)"
    using replace_TT_set by blast
  then have "map ?f (str_replace ''TT'' ''T'' ?t) = str_replace ''TT'' ''T'' ?t"
    by (rule map_space_id)
  then have "normalize_date (normalize_date s) = str_replace ''TT'' ''T'' (str_replace ''TT'' ''T'' ?t)"
    by (simp only: normalize_date_def str_replace_space)
  moreover have "normalize_date s = str_replace ''TT'' ''T'' ?t"
    by (simp only: normalize_date_def str_replace_space)
  ultimately show ?thesis
    by (simp only: replace_TT_fixpoint has_TT_replace_TT has_T3_map_space)
qed

theorem normalize_date_idempotent_iff_witness:
  "normalize_date (normalize_date ''2025-07-30 10:00:00'') = normalize_date ''2025-07-30 10:00:00''
   \<and> \<not> has_sep_triple ''2025-07-30 10:00:00''
   \<and> normalize_date ''2025-07-30 10:00:00'' = ''2025-07-30T10:00:00''"
proof -
  have free: "\<not> has_sep_triple ''2025-07-30 10:00:00''"
    by (simp add: is_sep_def)
  have "normalize_date (normalize_date ''2025-07-30 10:00:00'') = normalize_date ''2025-07-30 10:00:00''"
    using normalize_date_idempotent_iff [of "''2025-07-30 10:00:00''"] free by blast
  moreover have "normalize_date ''2025-07-30 10:00:00'' = ''2025-07-30T10:00:00''"
    by (simp add: normalize_date_def)
  ultimately show ?thesis using free by blast
qed

text \<open>
  C3, as stated, fails: with three blanks between the date and the time, the first
  pass leaves \<open>TT\<close> and the second pass changes it.
\<close>

theorem normalize_date_not_idempotent:
  "normalize_date ''2025-07-30   10:00:00'' = ''2025-07-30TT10:00:00''
   \<and> normalize_date (normalize_date ''2025-07-30   10:00:00'') = ''2025-07-30T10:00:00''
   \<and> normalize_date (normalize_date ''2025-07-30   10:00:00'')
       \<noteq> normalize_date ''2025-07-30   10:00:00''"
  by (simp add: normalize_date_def)

subsection \<open>The bracket search\<close>

lemma greedy_to_rbracket_None: "greedy_to_rbracket cs = None \<longleftrightarrow> CHR '']'' \<notin> set cs"
  by (induction cs) (auto split: option.splits)

lemma greedy_to_rbracket_last:
  "CHR '']'' \<notin> set post \<Longrightarrow>
     greedy_to_rbracket (mid @ CHR '']'' # post) = Some (mid @ [CHR '']''])"
proof (induction mid)
  case Nil
  then have "greedy_to_rbracket post = None"
    by (simp add: greedy_to_rbracket_None)
  then show ?case by simp
next
  case (Cons c mid)
  then show ?case by simp
qed

text \<open>The match runs from the leftmost \<open>[\<close> to the rightmost \<open>]\<close>.\<close>

lemma re_search_span:
  "CHR ''['' \<notin> set pre \<Longrightarrow> CHR '']'' \<notin> set post \<Longrightarrow>
     re_search (pre @ CHR ''['' # mid @ CHR '']'' # post) = Some (CHR ''['' # mid @ [CHR '']''])"
  by (induction pre) (auto simp: greedy_to_rbracket_last)

lemma nth_pair_decomp:
  "(\<exists>i j. i < j \<and> j < length s \<and> s ! i = x \<and> s ! j = y)
     \<longleftrightarrow> (\<exists>a b c. s = a @ x # b @ y # c)"
proof
  assume "\<exists>i j. i < j \<and> j < length s \<and> s ! i = x \<and> s ! j = y"
  then obtain i j where ij: "i < j" "j < length s" "s ! i = x" "s ! j = y"
    by blast
  define t where "t = drop (Suc i) s"
  have s: "s = take i s @ x # t"
    using ij id_take_nth_drop [of i s] by (simp add: t_def)
  have j': "j - Suc i < length t" "t ! (j - Suc i) = y"
    using ij by (simp_all add: t_def)
  then have "t = take (j - Suc i) t @ y # drop (Suc (j - Suc i)) t"
    by (metis id_take_nth_drop)
  with s show "\<exists>a b c. s = a @ x # b @ y # c"
    by metis
next
  assume "\<exists>a b c. s = a @ x # b @ y # c"
  then obtain a b c where s: "s = a @ x # b @ y # c"
    by blast
  have "length a < length a + Suc (length b)" "length a + Suc (length b) < length s"
    "s ! length a = x" "s ! (length a + Suc (length b)) = y"
    using s by (simp_all add: nth_append)
  then show "\<exists>i j. i < j \<and> j < length s \<and> s ! i = x \<and> s ! j = y"
    by blast
qed

lemma re_search_None_decomp:
  "re_search s = None \<longleftrightarrow> \<not> (\<exists>a b c. s = a @ CHR ''['' # b @ CHR '']'' # c)"
proof (induction s)
  case Nil
  show ?case by simp
next
  case (Cons d ds)
  have "(\<exists>a b c. d # ds = a @ CHR ''['' # b @ CHR '']'' # c)
          \<longleftrightarrow> (d = CHR ''['' \<and> CHR '']'' \<in> set ds) \<or> (\<exists>a b c. ds = a @ CHR ''['' # b @ CHR '']'' # c)"
    (is "?L \<longleftrightarrow> ?R")
  proof
    assume ?L
    then obtain a b c where e: "d # ds = a @ CHR ''['' # b @ CHR '']'' # c"
      by blast
    show ?R
    proof (cases a)
      case Nil
      with e show ?thesis by auto
    next
      case (Cons a0 as)
      with e have "ds = as @ CHR ''['' # b @ CHR '']'' # c" by simp
      then show ?thesis by blast
    qed
  next
    assume ?R
    then show ?L
    proof
      assume h: "d = CHR ''['' \<and> CHR '']'' \<in> set ds"
      then obtain b c where "ds = b @ CHR '']'' # c"
        by (meson split_list)
      with h have "d # ds = [] @ CHR ''['' # b @ CHR '']'' # c" by simp
      then show ?L by blast
    next
      assume "\<exists>a b c. ds = a @ CHR ''['' # b @ CHR '']'' # c"
      then obtain a b c where "ds = a @ CHR ''['' # b @ CHR '']'' # c" by blast
      then have "d # ds = (d # a) @ CHR ''['' # b @ CHR '']'' # c" by simp
      then show ?L by blast
    qed
  qed
  moreover have "re_search (d # ds) = None
        \<longleftrightarrow> \<not> (d = CHR ''['' \<and> CHR '']'' \<in> set ds) \<and> re_search ds = None"
  proof (cases "greedy_to_rbracket ds")
    case None
    then have "CHR '']'' \<notin> set ds"
      by (simp add: greedy_to_rbracket_None)
    with None show ?thesis by simp
  next
    case (Some m)
    then have "CHR '']'' \<in> set ds"
      using greedy_to_rbracket_None [of ds] by simp
    with Some show ?thesis by simp
  qed
  ultimately show ?case using Cons.IH by blast
qed

lemma re_search_None_iff:
  "re_search s = None
     \<longleftrightarrow> \<not> (\<exists>i j. i < j \<and> j < length s \<and> s ! i = CHR ''['' \<and> s ! j = CHR '']'')"
  by (simp only: re_search_None_decomp nth_pair_decomp)

subsection \<open>The parser\<close>

lemma fix_field_absent: "map_of command k = None \<Longrightarrow> fix_field k command = command"
  by (simp add: fix_field_def)

lemma fix_dates_message:
  "fix_dates [message_command text] = Inr [message_command text]"
  by (simp add: message_command_def fix_field_def)

lemma fix_dates_length: "fix_dates xs = Inr ys \<Longrightarrow> length ys = length xs"
  by (induction xs arbitrary: ys) (auto split: sum.splits)

lemma respond_message:
  "parse_commands (loads env) msg = [message_command msg] \<Longrightarrow>
     respond env msg = Inr (Response 200 (JDict [(''commands'', JList [message_command msg])]))"
  by (simp del: fix_dates.simps add: respond_def fix_dates_message)

text \<open>
  C4. For every raw assistant text that has no \<open>[\<close> with a \<open>]\<close> somewhere after it, the
  parser's output is exactly one MESSAGE command whose text is the raw input verbatim,
  whatever the decoder is, and the handler answers with that list unchanged.
\<close>

theorem no_brackets_single_message:
  assumes "\<not> (\<exists>i j. i < j \<and> j < length msg \<and> msg ! i = CHR ''['' \<and> msg ! j = CHR '']'')"
  shows "parse_commands decoder msg = [JDict [(''command'', JStr ''MESSAGE''), (''text'', JStr msg)]]
         \<and> (loads env = decoder \<longrightarrow>
              respond env msg =
                Inr (Response 200 (JDict [(''commands'',
                  JList [JDict [(''command'', JStr ''MESSAGE''), (''text'', JStr msg)]])])))"
proof -
  have none: "re_search msg = None"
    using assms by (simp add: re_search_None_iff)
  then have p: "parse_commands decoder msg = [message_command msg]"
    by (simp add: parse_commands_def)
  then show ?thesis
    using respond_message [of env msg] by (auto simp: message_command_def)
qed

theorem no_brackets_single_message_witness:
  "\<not> (\<exists>i j. i < j \<and> j < length ''Sure, I'll do that!''
            \<and> ''Sure, I'll do that!'' ! i = CHR ''['' \<and> ''Sure, I'll do that!'' ! j = CHR '']'')
   \<and> parse_commands json_loads ''Sure, I'll do that!''
       = [JDict [(''command'', JStr ''MESSAGE''), (''text'', JStr ''Sure, I'll do that!'')]]
   \<and> respond example_env ''Sure, I'll do that!''
       = Inr (Response 200 (JDict [(''commands'',
           JList [JDict [(''command'', JStr ''MESSAGE''), (''text'', JStr ''Sure, I'll do that!'')]])]))"
proof -
  have "re_search ''Sure, I'll do that!'' = None"
    by simp
  then have h: "\<not> (\<exists>i j. i < j \<and> j < length ''Sure, I'll do that!''
            \<and> ''Sure, I'll do that!'' ! i = CHR ''['' \<and> ''Sure, I'll do that!'' ! j = CHR '']'')"
    by (rule re_search_None_iff [THEN iffD1])
  have l: "loads example_env = json_loads"
    by (simp add: example_env_def)
  show ?thesis
    using h l no_brackets_single_message [OF h, of json_loads example_env] by blast
qed

text \<open>
  C2, as amended. For every raw assistant text whose span from the leftmost \<open>[\<close> to the
  rightmost \<open>]\<close> decodes to a list, the parser's output equals that decoded list.
\<close>

theorem span_decodes_to_list:
  assumes "msg = pre @ CHR ''['' # mid @ CHR '']'' # post"
    and "CHR ''['' \<notin> set pre" and "CHR '']'' \<notin> set post"
    and "decoder (CHR ''['' # mid @ [CHR '']'']) = Some (JList cmds)"
  shows "parse_commands decoder msg = cmds"
proof -
  have "re_search msg = Some (CHR ''['' # mid @ [CHR '']''])"
    unfolding assms(1) by (rule re_search_span [OF assms(2) assms(3)])
  then show ?thesis
    using assms(4) by (simp add: parse_commands_def)
qed

theorem span_decodes_to_list_witness:
  "''Done: [{\"command\": \"MESSAGE\", \"text\": \"Hi\"}] Bye''
     = ''Done: '' @ CHR ''['' # ''{\"command\": \"MESSAGE\", \"text\": \"Hi\"}'' @ CHR '']'' # '' Bye''
   \<and> CHR ''['' \<notin> set ''Done: '' \<and> CHR '']'' \<notin> set '' Bye''
   \<and> json_loads (CHR ''['' # ''{\"command\": \"MESSAGE\", \"text\": \"Hi\"}'' @ [CHR '']''])
       = Some (JList [JDict [(''command'', JStr ''MESSAGE''), (''text'', JStr ''Hi'')]])
   \<and> parse_commands json_loads ''Done: [{\"command\": \"MESSAGE\", \"text\": \"Hi\"}] Bye''
       = [JDict [(''command'', JStr ''MESSAGE''), (''text'', JStr ''Hi'')]]"
proof -
  have a: "''Done: [{\"command\": \"MESSAGE\", \"text\": \"Hi\"}] Bye''
     = ''Done: '' @ CHR ''['' # ''{\"command\": \"MESSAGE\", \"text\": \"Hi\"}'' @ CHR '']'' # '' Bye''"
    by simp
  have b: "CHR ''['' \<notin> set ''Done: ''" and c: "CHR '']'' \<notin> set '' Bye''"
    by simp_all
  have d: "json_loads (CHR ''['' # ''{\"command\": \"MESSAGE\", \"text\": \"Hi\"}'' @ [CHR '']''])
       = Some (JList [JDict [(''command'', JStr ''MESSAGE''), (''text'', JStr ''Hi'')]])"
    by code_simp
  show ?thesis
    using a b c d
      span_decodes_to_list [where pre = "''Done: ''" and post = "'' Bye''" and decoder = json_loads
        and mid = "''{\"command\": \"MESSAGE\", \"text\": \"Hi\"}''", OF a b c d]
    by blast
qed

text \<open>
  C2, as stated, fails: the text below contains the well-formed array
  \<open>[{"command": "MESSAGE", "text": "Hi"}]\<close>, but the match starts at the earlier \<open>[\<close> of
  \<open>[1]\<close>, does not decode, and the output is the MESSAGE fallback.
\<close>

theorem contained_array_not_output:
  "''See [1]: [{\"command\": \"MESSAGE\", \"text\": \"Hi\"}]''
     = ''See [1]: '' @ ''[{\"command\": \"MESSAGE\", \"text\": \"Hi\"}]''
   \<and> json_loads ''[{\"command\": \"MESSAGE\", \"text\": \"Hi\"}]''
       = Some (JList [JDict [(''command'', JStr ''MESSAGE''), (''text'', JStr ''Hi'')]])
   \<and> parse_commands json_loads ''See [1]: [{\"command\": \"MESSAGE\", \"text\": \"Hi\"}]''
       = [JDict [(''command'', JStr ''MESSAGE''),
                 (''text'', JStr ''See [1]: [{\"command\": \"MESSAGE\", \"text\": \"Hi\"}]'')]]
   \<and> parse_commands json_loads ''See [1]: [{\"command\": \"MESSAGE\", \"text\": \"Hi\"}]''
       \<noteq> [JDict [(''command'', JStr ''MESSAGE''), (''text'', JStr ''Hi'')]]"
  by code_simp

subsection \<open>The provider adapter and the handler, case by case\<close>

lemma provider_cases:
  "\<exists>text calls. provider env messages user_input = (Inr text, calls)
      \<and> (calls = [] \<or> (\<exists>c. calls = [c] \<and> is_provider_call c))"
  by (auto simp: provider_def Let_def split: option.splits sum.splits)

lemma fix_dates_Inl_iff: "(\<exists>e. fix_dates xs = Inl e) \<longleftrightarrow> (\<exists>x\<in>set xs. \<not> is_dict x)"
proof (induction xs)
  case Nil
  show ?case by simp
next
  case (Cons x xs)
  show ?case
  proof (cases x)
    case (JDict kvs)
    then show ?thesis using Cons.IH by (auto split: sum.splits)
  qed (simp_all)
qed

lemma ai_pipeline_cases:
  assumes "ai_pipeline env u v db = (res, db', effs)"
  shows "(\<not> known_timezone env (timezone_or_utc u) \<and> db' = db \<and> effs = []
            \<and> res = Inl (UnknownTimeZoneError (timezone_or_utc u)))
         \<or> (known_timezone env (timezone_or_utc u) \<and>
             (\<exists>msg calls.
                provider env (build_messages env u (timezone_or_utc u) db) (format_value env v)
                  = (Inr msg, calls)
                \<and> res = respond env msg
                \<and> db' = add_commit (assistant_conversation env u msg) db
                \<and> effs = calls @ [Commit (assistant_conversation env u msg)]))"
proof (cases "known_timezone env (timezone_or_utc u)")
  case False
  then show ?thesis
    using assms by (simp add: ai_pipeline_def pytz_timezone_def)
next
  case True
  obtain msg calls where p:
    "provider env (build_messages env u (timezone_or_utc u) db) (format_value env v) = (Inr msg, calls)"
    using provider_cases by blast
  show ?thesis
    using assms True p by (simp add: ai_pipeline_def pytz_timezone_def Let_def)
qed

lemma ai_try_rejected:
  "request_input rj = Inl e \<Longrightarrow> ai_try env u rj db = (Inl e, db, [])"
  "request_input rj = Inr v \<Longrightarrow> \<not> py_truthy v \<Longrightarrow>
     ai_try env u rj db = (Inr (error_response 400 ''No input provided''), db, [])"
  "request_input rj = Inr v \<Longrightarrow> py_truthy v \<Longrightarrow> bind_text env v = Inl e \<Longrightarrow>
     ai_try env u rj db = (Inl e, db, [])"
  by (simp_all add: ai_try_def)

lemma ai_try_accepted:
  assumes "request_input rj = Inr v" and "py_truthy v" and "bind_text env v = Inr text"
    and "ai_pipeline env u v (add_commit (user_conversation env u text) db) = (res, db', effs)"
  shows "ai_try env u rj db = (res, db', Commit (user_conversation env u text) # effs)"
  using assms by (simp add: ai_try_def Let_def)

lemma ai_of_try:
  "ai_try env u rj db = (Inl e, db', effs) \<Longrightarrow>
     ai env u rj db = (error_response 500 ''Failed to process request'', db', effs)"
  "ai_try env u rj db = (Inr r, db', effs) \<Longrightarrow> ai env u rj db = (r, db', effs)"
  by (simp_all add: ai_def)

subsection \<open>Input validation\<close>

lemma falsy_input_client_error:
  assumes "map_of kvs ''input'' = None \<or> (\<exists>v. map_of kvs ''input'' = Some v \<and> \<not> py_truthy v)"
  shows "ai env u (Some (JDict kvs)) db
           = (Response 400 (JDict [(''error'', JStr ''No input provided'')]), db, [])"
proof -
  obtain v where v: "request_input (Some (JDict kvs)) = Inr v" "\<not> py_truthy v"
    using assms by (auto simp: request_input_def)
  show ?thesis
    using ai_try_rejected(2) [OF v] by (simp add: ai_def error_response_def)
qed

text \<open>
  A body that is not a JSON object never reaches the check of the input:
  \<open>request.json.get\<close> raises and the \<open>except\<close> of the handler answers.
\<close>

lemma no_object_body_server_error:
  assumes "\<forall>kvs. rj \<noteq> Some (JDict kvs)"
  shows "ai env u rj db
           = (Response 500 (JDict [(''error'', JStr ''Failed to process request'')]), db, [])"
proof -
  have "\<exists>e. request_input rj = Inl e"
    using assms by (cases rj; cases "the rj") (simp_all add: request_input_def)
  then obtain e where "request_input rj = Inl e"
    by blast
  then show ?thesis
    using ai_try_rejected(1) [where env = env and u = u and db = db]
      ai_of_try(1) [where env = env and u = u and db = db and db' = db and effs = "[]"]
    by (simp add: error_response_def)
qed

text \<open>
  C8, as amended. Every \<open>/ai\<close> request that carries no non-empty input is answered with
  an error before any side effect: the database is unchanged, no turn is committed and
  no provider is called. The answer is the client error 400 with \<open>No input provided\<close>
  when the body is a JSON object whose \<open>input\<close> is absent or false for Python (null,
  the empty string, zero, \<open>false\<close>, an empty list or object), and the generic server
  error 500 when the body is not a JSON object.
\<close>

theorem missing_input_rejected_without_effect:
  assumes "\<forall>kvs v. rj = Some (JDict kvs) \<and> map_of kvs ''input'' = Some v \<longrightarrow> \<not> py_truthy v"
  shows "ai env u rj db
           = (if (\<exists>kvs. rj = Some (JDict kvs))
              then Response 400 (JDict [(''error'', JStr ''No input provided'')])
              else Response 500 (JDict [(''error'', JStr ''Failed to process request'')]),
              db, [])"
proof (cases "\<exists>kvs. rj = Some (JDict kvs)")
  case True
  then obtain kvs where rj: "rj = Some (JDict kvs)"
    by blast
  have "map_of kvs ''input'' = None \<or> (\<exists>v. map_of kvs ''input'' = Some v \<and> \<not> py_truthy v)"
    using assms rj by (cases "map_of kvs ''input''") auto
  then show ?thesis
    using falsy_input_client_error [of kvs env u db] rj by simp
next
  case False
  then show ?thesis
    using no_object_body_server_error [of rj env u db] by simp
qed

theorem missing_input_rejected_without_effect_witness:
  "ai example_env example_user (Some (JDict [(''input'', JStr [])])) example_db
     = (Response 400 (JDict [(''error'', JStr ''No input provided'')]), example_db, [])
   \<and> ai example_env example_user (Some (JDict [])) example_db
     = (Response 400 (JDict [(''error'', JStr ''No input provided'')]), example_db, [])"
proof -
  have h: "\<forall>kvs v. Some (JDict [(''input'', JStr [])]) = Some (JDict kvs)
              \<and> map_of kvs ''input'' = Some v \<longrightarrow> \<not> py_truthy v"
    by auto
  have g: "\<forall>kvs v. Some (JDict []) = Some (JDict kvs)
              \<and> map_of kvs ''input'' = Some v \<longrightarrow> \<not> py_truthy v"
    by auto
  show ?thesis
    using missing_input_rejected_without_effect [OF h, of example_env example_user example_db]
      missing_input_rejected_without_effect [OF g, of example_env example_user example_db]
    by simp
qed

text \<open>
  C8, as stated, fails: a request whose body is the JSON value \<open>null\<close>, or that has no
  JSON body at all, carries no input and is answered with the server error 500, not
  with a client error.
\<close>

theorem missing_input_server_error:
  "ai example_env example_user (Some JNull) example_db
     = (Response 500 (JDict [(''error'', JStr ''Failed to process request'')]), example_db, [])
   \<and> ai example_env example_user None example_db
     = (Response 500 (JDict [(''error'', JStr ''Failed to process request'')]), example_db, [])"
  by code_simp

subsection \<open>The provider adapter\<close>

text \<open>
  C6. The provider adapter never lets an exception out: for every environment, message
  list and input its result is a string. When the client call of the active provider
  raises, that string is the fixed apology of the provider followed by \<open>str(e)\<close>.
\<close>

theorem provider_never_raises:
  "(\<exists>text calls. provider env messages user_input = (Inr text, calls))
   \<and> (AI_PROVIDER env = ''openai'' \<and> getenv_OPENAI_API_KEY env = Some k \<and> k \<noteq> []
        \<and> k \<noteq> ''your-openai-api-key-here'' \<and> openai_create env k messages = Inl e
      \<longrightarrow> provider env messages user_input
            = (Inr (''I'm sorry, but there was an error with the OpenAI service: '' @ str_exn e),
               [OpenAICall k messages]))
   \<and> (AI_PROVIDER env = ''cohere'' \<and> getenv_COHERE_API_KEY env = Some k \<and> k \<noteq> []
        \<and> k \<noteq> ''your-cohere-api-key-here''
        \<and> cohere_generate env k (full_prompt messages user_input) = Inl e
      \<longrightarrow> provider env messages user_input
            = (Inr (''I'm sorry, but there was an error with the Cohere service: '' @ str_exn e),
               [CohereCall k (full_prompt messages user_input)]))"
proof (intro conjI impI)
  show "\<exists>text calls. provider env messages user_input = (Inr text, calls)"
    using provider_cases by blast
next
  assume "AI_PROVIDER env = ''openai'' \<and> getenv_OPENAI_API_KEY env = Some k \<and> k \<noteq> []
        \<and> k \<noteq> ''your-openai-api-key-here'' \<and> openai_create env k messages = Inl e"
  then show "provider env messages user_input
            = (Inr (''I'm sorry, but there was an error with the OpenAI service: '' @ str_exn e),
               [OpenAICall k messages])"
    by (simp add: provider_def key_unset_def openai_try_def openai_error_prefix_def)
next
  assume "AI_PROVIDER env = ''cohere'' \<and> getenv_COHERE_API_KEY env = Some k \<and> k \<noteq> []
        \<and> k \<noteq> ''your-cohere-api-key-here''
        \<and> cohere_generate env k (full_prompt messages user_input) = Inl e"
  then show "provider env messages user_input
            = (Inr (''I'm sorry, but there was an error with the Cohere service: '' @ str_exn e),
               [CohereCall k (full_prompt messages user_input)])"
    by (simp add: provider_def key_unset_def cohere_try_def cohere_error_prefix_def)
qed

theorem provider_never_raises_witness:
  "AI_PROVIDER (example_env\<lparr>AI_PROVIDER := ''cohere''\<rparr>) = ''cohere''
   \<and> getenv_COHERE_API_KEY (example_env\<lparr>AI_PROVIDER := ''cohere''\<rparr>) = Some ''co-example''
   \<and> cohere_generate (example_env\<lparr>AI_PROVIDER := ''cohere''\<rparr>) ''co-example''
        (full_prompt [] ''hi'') = Inl (OtherException ''connection refused'')
   \<and> provider (example_env\<lparr>AI_PROVIDER := ''cohere''\<rparr>) [] ''hi''
       = (Inr ''I'm sorry, but there was an error with the Cohere service: connection refused'',
          [CohereCall ''co-example'' (full_prompt [] ''hi'')])
   \<and> AI_PROVIDER (example_env\<lparr>openai_create := \<lambda>k m. Inl (OtherException ''rate limit'')\<rparr>)
       = ''openai''
   \<and> provider (example_env\<lparr>openai_create := \<lambda>k m. Inl (OtherException ''rate limit'')\<rparr>) [] ''hi''
       = (Inr ''I'm sorry, but there was an error with the OpenAI service: rate limit'',
          [OpenAICall ''sk-example'' []])"
proof -
  let ?c = "example_env\<lparr>AI_PROVIDER := ''cohere''\<rparr>"
  let ?o = "example_env\<lparr>openai_create := \<lambda>k m. Inl (OtherException ''rate limit'')\<rparr>"
  have c: "AI_PROVIDER ?c = ''cohere'' \<and> getenv_COHERE_API_KEY ?c = Some ''co-example''
        \<and> ''co-example'' \<noteq> [] \<and> ''co-example'' \<noteq> ''your-cohere-api-key-here''
        \<and> cohere_generate ?c ''co-example'' (full_prompt [] ''hi'')
            = Inl (OtherException ''connection refused'')"
    by (simp add: example_env_def)
  have o: "AI_PROVIDER ?o = ''openai'' \<and> getenv_OPENAI_API_KEY ?o = Some ''sk-example''
        \<and> ''sk-example'' \<noteq> [] \<and> ''sk-example'' \<noteq> ''your-openai-api-key-here''
        \<and> openai_create ?o ''sk-example'' [] = Inl (OtherException ''rate limit'')"
    by (simp add: example_env_def)
  have "provider ?c [] ''hi''
       = (Inr ''I'm sorry, but there was an error with the Cohere service: connection refused'',
          [CohereCall ''co-example'' (full_prompt [] ''hi'')])"
    using c provider_never_raises [of ?c "[]" "''hi''" "''co-example''"
        "OtherException ''connection refused''"]
    by simp
  moreover have "provider ?o [] ''hi''
       = (Inr ''I'm sorry, but there was an error with the OpenAI service: rate limit'',
          [OpenAICall ''sk-example'' []])"
    using o provider_never_raises [of ?o "[]" "''hi''" "''sk-example''"
        "OtherException ''rate limit''"]
    by simp
  ultimately show ?thesis
    using c o by simp
qed

subsection \<open>The shape of every run\<close>

lemma ai_cases:
  assumes "ai env u rj db = (r, db', effs)"
  shows "(effs = [] \<and> db' = db
            \<and> ((\<exists>e. request_input rj = Inl e)
               \<or> (\<exists>v. request_input rj = Inr v \<and> \<not> py_truthy v)
               \<or> (\<exists>v e. request_input rj = Inr v \<and> py_truthy v \<and> bind_text env v = Inl e)))
       \<or> (\<exists>v text. request_input rj = Inr v \<and> py_truthy v \<and> bind_text env v = Inr text
            \<and> \<not> known_timezone env (timezone_or_utc u)
            \<and> effs = [Commit (user_conversation env u text)]
            \<and> db' = add_commit (user_conversation env u text) db
            \<and> r = error_response 500 ''Failed to process request'')
       \<or> (\<exists>v text msg calls. request_input rj = Inr v \<and> py_truthy v
            \<and> bind_text env v = Inr text \<and> known_timezone env (timezone_or_utc u)
            \<and> provider env (build_messages env u (timezone_or_utc u)
                              (add_commit (user_conversation env u text) db))
                 (format_value env v) = (Inr msg, calls)
            \<and> effs = Commit (user_conversation env u text) # calls
                       @ [Commit (assistant_conversation env u msg)]
            \<and> db' = add_commit (assistant_conversation env u msg)
                      (add_commit (user_conversation env u text) db)
            \<and> r = (case respond env msg of
                     Inl e \<Rightarrow> error_response 500 ''Failed to process request''
                   | Inr ok \<Rightarrow> ok))"
proof (cases "request_input rj")
  case (Inl e)
  then show ?thesis
    using assms ai_try_rejected(1) [OF Inl, of env u db] by (auto simp: ai_def)
next
  case (Inr v)
  show ?thesis
  proof (cases "py_truthy v")
    case False
    then show ?thesis
      using assms Inr ai_try_rejected(2) [OF Inr False, of env u db] by (auto simp: ai_def)
  next
    case True
    show ?thesis
    proof (cases "bind_text env v")
      case (Inl e)
      then show ?thesis
        using assms Inr True ai_try_rejected(3) [OF Inr True Inl, of u db]
        by (auto simp: ai_def)
    next
      case bound: (Inr t)
      obtain res db2 effs2 where
        p: "ai_pipeline env u v (add_commit (user_conversation env u t) db) = (res, db2, effs2)"
        using prod_cases3 by blast
      have t: "ai_try env u rj db = (res, db2, Commit (user_conversation env u t) # effs2)"
        using ai_try_accepted [OF Inr True bound p] .
      have r: "r = (case res of Inl e \<Rightarrow> error_response 500 ''Failed to process request''
                    | Inr ok \<Rightarrow> ok)"
        and d: "db' = db2" and e: "effs = Commit (user_conversation env u t) # effs2"
        using assms t by (auto simp: ai_def split: sum.splits)
      show ?thesis
        using ai_pipeline_cases [OF p] Inr True bound r d e by auto
    qed
  qed
qed

subsection \<open>Missing credentials\<close>

lemma provider_credential_missing:
  "credential_missing env \<Longrightarrow> provider env messages user_input = (Inr (not_configured_text env), [])"
  by (auto simp: credential_missing_def not_configured_text_def provider_def Let_def)

lemma re_search_not_configured:
  "re_search openai_not_configured = None" "re_search cohere_not_configured = None"
  by (simp_all add: openai_not_configured_def cohere_not_configured_def)

lemma respond_not_configured:
  "respond env (not_configured_text env)
     = Inr (Response 200 (JDict [(''commands'', JList [message_command (not_configured_text env)])]))"
proof -
  have "re_search (not_configured_text env) = None"
    by (simp add: not_configured_text_def re_search_not_configured)
  then have "parse_commands (loads env) (not_configured_text env)
               = [message_command (not_configured_text env)]"
    by (simp add: parse_commands_def)
  then show ?thesis
    by (rule respond_message)
qed

text \<open>
  C5. Whenever the credential of the active provider is absent, empty or the placeholder
  of the template, no run of the handler makes a provider request, whatever the request
  is. When the run gets as far as the provider step (the input is non-empty text and
  the user's time zone is known), the assistant turn that is committed is the fixed
  text that the key is not configured, and the caller receives that text as a single
  MESSAGE command.
\<close>

theorem missing_credential_not_configured:
  assumes "credential_missing env" and "ai env u rj db = (r, db', effs)"
  shows "(\<forall>c\<in>set effs. \<not> is_provider_call c)
       \<and> (\<forall>v t. request_input rj = Inr v \<and> py_truthy v \<and> bind_text env v = Inr t
                 \<and> known_timezone env (timezone_or_utc u)
            \<longrightarrow> effs = [Commit (user_conversation env u t),
                         Commit (assistant_conversation env u (not_configured_text env))]
                \<and> r = Response 200 (JDict [(''commands'',
                        JList [JDict [(''command'', JStr ''MESSAGE''),
                                      (''text'', JStr (not_configured_text env))]])]))
       \<and> (not_configured_text env
            = ''I'm sorry, but the OpenAI API key is not configured. Please set up your OpenAI API key in the .env file.''
          \<or> not_configured_text env
            = ''I'm sorry, but the Cohere API key is not configured. Please set up your Cohere API key in the .env file.'')"
proof -
  have p: "\<And>messages user_input.
      provider env messages user_input = (Inr (not_configured_text env), [])"
    using assms(1) by (rule provider_credential_missing)
  have shape: "effs = [] \<or> (\<exists>t. effs = [Commit (user_conversation env u t)])
      \<or> (\<exists>v t. request_input rj = Inr v \<and> bind_text env v = Inr t
            \<and> effs = [Commit (user_conversation env u t),
                       Commit (assistant_conversation env u (not_configured_text env))]
            \<and> r = Response 200 (JDict [(''commands'',
                     JList [message_command (not_configured_text env)])]))"
    using ai_cases [OF assms(2)] p by (auto simp: respond_not_configured)
  have calls: "\<forall>c\<in>set effs. \<not> is_provider_call c"
    using shape by auto
  have reached: "\<forall>v t. request_input rj = Inr v \<and> py_truthy v \<and> bind_text env v = Inr t
                 \<and> known_timezone env (timezone_or_utc u)
            \<longrightarrow> effs = [Commit (user_conversation env u t),
                         Commit (assistant_conversation env u (not_configured_text env))]
                \<and> r = Response 200 (JDict [(''commands'',
                        JList [JDict [(''command'', JStr ''MESSAGE''),
                                      (''text'', JStr (not_configured_text env))]])])"
    using ai_cases [OF assms(2)] p
    by (auto simp: respond_not_configured message_command_def)
  have fixed: "not_configured_text env
            = ''I'm sorry, but the OpenAI API key is not configured. Please set up your OpenAI API key in the .env file.''
          \<or> not_configured_text env
            = ''I'm sorry, but the Cohere API key is not configured. Please set up your Cohere API key in the .env file.''"
    by (simp add: not_configured_text_def openai_not_configured_def cohere_not_configured_def)
  show ?thesis
    using calls reached fixed by blast
qed

theorem missing_credential_not_configured_witness:
  "credential_missing (example_env\<lparr>getenv_OPENAI_API_KEY := None\<rparr>)
   \<and> request_input (Some (JDict [(''input'', JStr ''hello'')])) = Inr (JStr ''hello'')
   \<and> py_truthy (JStr ''hello'')
   \<and> bind_text (example_env\<lparr>getenv_OPENAI_API_KEY := None\<rparr>) (JStr ''hello'') = Inr ''hello''
   \<and> known_timezone (example_env\<lparr>getenv_OPENAI_API_KEY := None\<rparr>) (timezone_or_utc example_user)
   \<and> fst (ai (example_env\<lparr>getenv_OPENAI_API_KEY := None\<rparr>) example_user
             (Some (JDict [(''input'', JStr ''hello'')])) example_db)
       = Response 200 (JDict [(''commands'',
           JList [JDict [(''command'', JStr ''MESSAGE''),
                         (''text'', JStr ''I'm sorry, but the OpenAI API key is not configured. Please set up your OpenAI API key in the .env file.'')]])])
   \<and> snd (snd (ai (example_env\<lparr>getenv_OPENAI_API_KEY := None\<rparr>) example_user
             (Some (JDict [(''input'', JStr ''hello'')])) example_db))
       = [Commit (user_conversation (example_env\<lparr>getenv_OPENAI_API_KEY := None\<rparr>)
                    example_user ''hello''),
          Commit (assistant_conversation (example_env\<lparr>getenv_OPENAI_API_KEY := None\<rparr>)
                    example_user
                    ''I'm sorry, but the OpenAI API key is not configured. Please set up your OpenAI API key in the .env file.'')]"
proof -
  let ?env = "example_env\<lparr>getenv_OPENAI_API_KEY := None\<rparr>"
  let ?rj = "Some (JDict [(''input'', JStr ''hello'')])"
  have m: "credential_missing ?env"
    by (simp add: credential_missing_def example_env_def key_unset_def)
  have a: "ai ?env example_user ?rj example_db
             = (fst (ai ?env example_user ?rj example_db),
                fst (snd (ai ?env example_user ?rj example_db)),
                snd (snd (ai ?env example_user ?rj example_db)))"
    by simp
  have h: "request_input ?rj = Inr (JStr ''hello'') \<and> py_truthy (JStr ''hello'')
      \<and> bind_text ?env (JStr ''hello'') = Inr ''hello''
      \<and> known_timezone ?env (timezone_or_utc example_user)"
    by (simp add: request_input_def bind_text_def example_env_def example_user_def
        timezone_or_utc_def)
  have n: "not_configured_text ?env
      = ''I'm sorry, but the OpenAI API key is not configured. Please set up your OpenAI API key in the .env file.''"
    by (simp add: not_configured_text_def example_env_def openai_not_configured_def)
  show ?thesis
    using m h n missing_credential_not_configured [OF m a] by simp
qed

subsection \<open>The order of the turns and the provider request\<close>

text \<open>
  Which provider request a call of the adapter makes: one request to the active
  provider, carrying the key and the payload, when its key is usable, and none
  otherwise.
\<close>

lemma provider_calls:
  assumes "provider env messages user_input = (res, calls)"
  shows "(\<forall>k. AI_PROVIDER env = ''openai'' \<and> getenv_OPENAI_API_KEY env = Some k \<and> k \<noteq> []
              \<and> k \<noteq> ''your-openai-api-key-here'' \<longrightarrow> calls = [OpenAICall k messages])
       \<and> (\<forall>k. AI_PROVIDER env = ''cohere'' \<and> getenv_COHERE_API_KEY env = Some k \<and> k \<noteq> []
              \<and> k \<noteq> ''your-cohere-api-key-here''
            \<longrightarrow> calls = [CohereCall k (full_prompt messages user_input)])
       \<and> ((AI_PROVIDER env = ''openai'' \<and> (getenv_OPENAI_API_KEY env = None
                \<or> getenv_OPENAI_API_KEY env = Some []
                \<or> getenv_OPENAI_API_KEY env = Some ''your-openai-api-key-here''))
            \<or> (AI_PROVIDER env = ''cohere'' \<and> (getenv_COHERE_API_KEY env = None
                \<or> getenv_COHERE_API_KEY env = Some []
                \<or> getenv_COHERE_API_KEY env = Some ''your-cohere-api-key-here''))
            \<or> (AI_PROVIDER env \<noteq> ''openai'' \<and> AI_PROVIDER env \<noteq> ''cohere'')
            \<longrightarrow> calls = [])"
proof (intro conjI allI impI)
  fix k
  assume "AI_PROVIDER env = ''openai'' \<and> getenv_OPENAI_API_KEY env = Some k \<and> k \<noteq> []
              \<and> k \<noteq> ''your-openai-api-key-here''"
  then show "calls = [OpenAICall k messages]"
    using assms by (auto simp: provider_def key_unset_def split: sum.splits)
next
  fix k
  assume "AI_PROVIDER env = ''cohere'' \<and> getenv_COHERE_API_KEY env = Some k \<and> k \<noteq> []
              \<and> k \<noteq> ''your-cohere-api-key-here''"
  then show "calls = [CohereCall k (full_prompt messages user_input)]"
    using assms by (auto simp: provider_def key_unset_def split: sum.splits)
next
  assume "(AI_PROVIDER env = ''openai'' \<and> (getenv_OPENAI_API_KEY env = None
                \<or> getenv_OPENAI_API_KEY env = Some []
                \<or> getenv_OPENAI_API_KEY env = Some ''your-openai-api-key-here''))
            \<or> (AI_PROVIDER env = ''cohere'' \<and> (getenv_COHERE_API_KEY env = None
                \<or> getenv_COHERE_API_KEY env = Some []
                \<or> getenv_COHERE_API_KEY env = Some ''your-cohere-api-key-here''))
            \<or> (AI_PROVIDER env \<noteq> ''openai'' \<and> AI_PROVIDER env \<noteq> ''cohere'')"
  then show "calls = []"
    using assms by (auto simp: provider_def key_unset_def)
qed

text \<open>
  C9. In every run of the handler on a non-empty input that the database driver
  accepts as the text \<open>t\<close> (an input that is a string always is, as itself), the first
  effect is the commit of the row \<open>(user, 'user', t)\<close>. If the user's time zone is
  unknown the run ends there with the answer 500: there is no provider request and no
  assistant turn. Otherwise the adapter runs on the messages built from the database
  that already holds that row; it makes exactly one request to the active provider when
  its key is usable and none otherwise; and the last effect is the commit of the row
  \<open>(user, 'assistant', assistant_msg)\<close>, so that the log ends with the user's turn
  followed by the assistant's turn. When the driver refuses the input, nothing is
  committed and no provider is called.
\<close>

theorem user_turn_committed_before_provider_call:
  assumes "request_input rj = Inr v" and "py_truthy v" and "ai env u rj db = (r, db', effs)"
  shows
    "(\<forall>e. bind_text env v = Inl e \<longrightarrow> effs = [] \<and> db' = db)
     \<and> (\<forall>t. bind_text env v = Inr t \<and> \<not> known_timezone env (timezone_or_utc u) \<longrightarrow>
          effs = [Commit \<lparr>conv_user_id = user_id u, conv_role = ''user'', conv_content = t,
                          conv_timestamp = utcnow_user_turn env\<rparr>]
          \<and> db' = db\<lparr>conversations := conversations db
                 @ [\<lparr>conv_user_id = user_id u, conv_role = ''user'', conv_content = t,
                     conv_timestamp = utcnow_user_turn env\<rparr>]\<rparr>
          \<and> r = Response 500 (JDict [(''error'', JStr ''Failed to process request'')]))
     \<and> (\<forall>t messages.
          bind_text env v = Inr t \<and> known_timezone env (timezone_or_utc u)
          \<and> messages = build_messages env u (timezone_or_utc u)
                (db\<lparr>conversations := conversations db
                   @ [\<lparr>conv_user_id = user_id u, conv_role = ''user'', conv_content = t,
                       conv_timestamp = utcnow_user_turn env\<rparr>]\<rparr>)
          \<longrightarrow>
          (\<exists>assistant_msg calls.
             provider env messages (format_value env v) = (Inr assistant_msg, calls)
             \<and> effs = Commit \<lparr>conv_user_id = user_id u, conv_role = ''user'', conv_content = t,
                               conv_timestamp = utcnow_user_turn env\<rparr>
                      # calls
                      @ [Commit \<lparr>conv_user_id = user_id u, conv_role = ''assistant'',
                                 conv_content = assistant_msg,
                                 conv_timestamp = utcnow_assistant_turn env\<rparr>]
             \<and> db' = db\<lparr>conversations := conversations db
                    @ [\<lparr>conv_user_id = user_id u, conv_role = ''user'', conv_content = t,
                        conv_timestamp = utcnow_user_turn env\<rparr>,
                       \<lparr>conv_user_id = user_id u, conv_role = ''assistant'',
                        conv_content = assistant_msg,
                        conv_timestamp = utcnow_assistant_turn env\<rparr>]\<rparr>
             \<and> (\<forall>k. AI_PROVIDER env = ''openai'' \<and> getenv_OPENAI_API_KEY env = Some k
                    \<and> k \<noteq> [] \<and> k \<noteq> ''your-openai-api-key-here''
                  \<longrightarrow> calls = [OpenAICall k messages])
             \<and> (\<forall>k. AI_PROVIDER env = ''cohere'' \<and> getenv_COHERE_API_KEY env = Some k
                    \<and> k \<noteq> [] \<and> k \<noteq> ''your-cohere-api-key-here''
                  \<longrightarrow> calls = [CohereCall k (full_prompt messages (format_value env v))])
             \<and> ((AI_PROVIDER env = ''openai'' \<and> (getenv_OPENAI_API_KEY env = None
                      \<or> getenv_OPENAI_API_KEY env = Some []
                      \<or> getenv_OPENAI_API_KEY env = Some ''your-openai-api-key-here''))
                  \<or> (AI_PROVIDER env = ''cohere'' \<and> (getenv_COHERE_API_KEY env = None
                      \<or> getenv_COHERE_API_KEY env = Some []
                      \<or> getenv_COHERE_API_KEY env = Some ''your-cohere-api-key-here''))
                  \<or> (AI_PROVIDER env \<noteq> ''openai'' \<and> AI_PROVIDER env \<noteq> ''cohere'')
                  \<longrightarrow> calls = [])))"
proof -
  have first: "(\<forall>e. bind_text env v = Inl e \<longrightarrow> effs = [] \<and> db' = db)"
  proof (intro allI impI)
  fix e
  assume "bind_text env v = Inl e"
  then have "ai_try env u rj db = (Inl e, db, [])"
    using ai_try_rejected(3) [OF assms(1,2)] by blast
  then show "effs = [] \<and> db' = db"
    using assms(3) by (simp add: ai_def)
  qed
  have second: "(\<forall>t. bind_text env v = Inr t \<and> \<not> known_timezone env (timezone_or_utc u) \<longrightarrow>
          effs = [Commit \<lparr>conv_user_id = user_id u, conv_role = ''user'', conv_content = t,
                          conv_timestamp = utcnow_user_turn env\<rparr>]
          \<and> db' = db\<lparr>conversations := conversations db
                 @ [\<lparr>conv_user_id = user_id u, conv_role = ''user'', conv_content = t,
                     conv_timestamp = utcnow_user_turn env\<rparr>]\<rparr>
          \<and> r = Response 500 (JDict [(''error'', JStr ''Failed to process request'')]))"
  proof (intro allI impI)
  fix t
  assume h: "bind_text env v = Inr t \<and> \<not> known_timezone env (timezone_or_utc u)"
  show "effs = [Commit \<lparr>conv_user_id = user_id u, conv_role = ''user'', conv_content = t,
                          conv_timestamp = utcnow_user_turn env\<rparr>]
          \<and> db' = db\<lparr>conversations := conversations db
                 @ [\<lparr>conv_user_id = user_id u, conv_role = ''user'', conv_content = t,
                     conv_timestamp = utcnow_user_turn env\<rparr>]\<rparr>
          \<and> r = Response 500 (JDict [(''error'', JStr ''Failed to process request'')])"
    using ai_cases [OF assms(3)] assms(1,2) h
    by (auto simp: user_conversation_def add_commit_def error_response_def)
  qed
  have third: "(\<forall>t messages.
          bind_text env v = Inr t \<and> known_timezone env (timezone_or_utc u)
          \<and> messages = build_messages env u (timezone_or_utc u)
                (db\<lparr>conversations := conversations db
                   @ [\<lparr>conv_user_id = user_id u, conv_role = ''user'', conv_content = t,
                       conv_timestamp = utcnow_user_turn env\<rparr>]\<rparr>)
          \<longrightarrow>
          (\<exists>assistant_msg calls.
             provider env messages (format_value env v) = (Inr assistant_msg, calls)
             \<and> effs = Commit \<lparr>conv_user_id = user_id u, conv_role = ''user'', conv_content = t,
                               conv_timestamp = utcnow_user_turn env\<rparr>
                      # calls
                      @ [Commit \<lparr>conv_user_id = user_id u, conv_role = ''assistant'',
                                 conv_content = assistant_msg,
                                 conv_timestamp = utcnow_assistant_turn env\<rparr>]
             \<and> db' = db\<lparr>conversations := conversations db
                    @ [\<lparr>conv_user_id = user_id u, conv_role = ''user'', conv_content = t,
                        conv_timestamp = utcnow_user_turn env\<rparr>,
                       \<lparr>conv_user_id = user_id u, conv_role = ''assistant'',
                        conv_content = assistant_msg,
                        conv_timestamp = utcnow_assistant_turn env\<rparr>]\<rparr>
             \<and> (\<forall>k. AI_PROVIDER env = ''openai'' \<and> getenv_OPENAI_API_KEY env = Some k
                    \<and> k \<noteq> [] \<and> k \<noteq> ''your-openai-api-key-here''
                  \<longrightarrow> calls = [OpenAICall k messages])
             \<and> (\<forall>k. AI_PROVIDER env = ''cohere'' \<and> getenv_COHERE_API_KEY env = Some k
                    \<and> k \<noteq> [] \<and> k \<noteq> ''your-cohere-api-key-here''
                  \<longrightarrow> calls = [CohereCall k (full_prompt messages (format_value env v))])
             \<and> ((AI_PROVIDER env = ''openai'' \<and> (getenv_OPENAI_API_KEY env = None
                      \<or> getenv_OPENAI_API_KEY env = Some []
                      \<or> getenv_OPENAI_API_KEY env = Some ''your-openai-api-key-here''))
                  \<or> (AI_PROVIDER env = ''cohere'' \<and> (getenv_COHERE_API_KEY env = None
                      \<or> getenv_COHERE_API_KEY env = Some []
                      \<or> getenv_COHERE_API_KEY env = Some ''your-cohere-api-key-here''))
                  \<or> (AI_PROVIDER env \<noteq> ''openai'' \<and> AI_PROVIDER env \<noteq> ''cohere'')
                  \<longrightarrow> calls = [])))"
  proof (intro allI impI)
  fix t messages
  assume h: "bind_text env v = Inr t \<and> known_timezone env (timezone_or_utc u)
          \<and> messages = build_messages env u (timezone_or_utc u)
                (db\<lparr>conversations := conversations db
                   @ [\<lparr>conv_user_id = user_id u, conv_role = ''user'', conv_content = t,
                       conv_timestamp = utcnow_user_turn env\<rparr>]\<rparr>)"
  then have m: "messages = build_messages env u (timezone_or_utc u)
                  (add_commit (user_conversation env u t) db)"
    by (simp add: user_conversation_def add_commit_def)
  obtain assistant_msg calls where
    p: "provider env messages (format_value env v) = (Inr assistant_msg, calls)"
    and e: "effs = Commit (user_conversation env u t) # calls
                     @ [Commit (assistant_conversation env u assistant_msg)]"
    and d: "db' = add_commit (assistant_conversation env u assistant_msg)
                    (add_commit (user_conversation env u t) db)"
    using ai_cases [OF assms(3)] assms(1,2) h m by auto
  have c: "(\<forall>k. AI_PROVIDER env = ''openai'' \<and> getenv_OPENAI_API_KEY env = Some k
                    \<and> k \<noteq> [] \<and> k \<noteq> ''your-openai-api-key-here''
                  \<longrightarrow> calls = [OpenAICall k messages])
             \<and> (\<forall>k. AI_PROVIDER env = ''cohere'' \<and> getenv_COHERE_API_KEY env = Some k
                    \<and> k \<noteq> [] \<and> k \<noteq> ''your-cohere-api-key-here''
                  \<longrightarrow> calls = [CohereCall k (full_prompt messages (format_value env v))])
             \<and> ((AI_PROVIDER env = ''openai'' \<and> (getenv_OPENAI_API_KEY env = None
                      \<or> getenv_OPENAI_API_KEY env = Some []
                      \<or> getenv_OPENAI_API_KEY env = Some ''your-openai-api-key-here''))
                  \<or> (AI_PROVIDER env = ''cohere'' \<and> (getenv_COHERE_API_KEY env = None
                      \<or> getenv_COHERE_API_KEY env = Some []
                      \<or> getenv_COHERE_API_KEY env = Some ''your-cohere-api-key-here''))
                  \<or> (AI_PROVIDER env \<noteq> ''openai'' \<and> AI_PROVIDER env \<noteq> ''cohere'')
                  \<longrightarrow> calls = [])"
    using provider_calls [OF p] .
  have e': "effs = Commit \<lparr>conv_user_id = user_id u, conv_role = ''user'', conv_content = t,
                               conv_timestamp = utcnow_user_turn env\<rparr>
                      # calls
                      @ [Commit \<lparr>conv_user_id = user_id u, conv_role = ''assistant'',
                                 conv_content = assistant_msg,
                                 conv_timestamp = utcnow_assistant_turn env\<rparr>]"
    using e by (simp add: user_conversation_def assistant_conversation_def)
  have d': "db' = db\<lparr>conversations := conversations db
                    @ [\<lparr>conv_user_id = user_id u, conv_role = ''user'', conv_content = t,
                        conv_timestamp = utcnow_user_turn env\<rparr>,
                       \<lparr>conv_user_id = user_id u, conv_role = ''assistant'',
                        conv_content = assistant_msg,
                        conv_timestamp = utcnow_assistant_turn env\<rparr>]\<rparr>"
    using d by (simp add: user_conversation_def assistant_conversation_def add_commit_def)
  show "\<exists>assistant_msg calls.
             provider env messages (format_value env v) = (Inr assistant_msg, calls)
             \<and> effs = Commit \<lparr>conv_user_id = user_id u, conv_role = ''user'', conv_content = t,
                               conv_timestamp = utcnow_user_turn env\<rparr>
                      # calls
                      @ [Commit \<lparr>conv_user_id = user_id u, conv_role = ''assistant'',
                                 conv_content = assistant_msg,
                                 conv_timestamp = utcnow_assistant_turn env\<rparr>]
             \<and> db' = db\<lparr>conversations := conversations db
                    @ [\<lparr>conv_user_id = user_id u, conv_role = ''user'', conv_content = t,
                        conv_timestamp = utcnow_user_turn env\<rparr>,
                       \<lparr>conv_user_id = user_id u, conv_role = ''assistant'',
                        conv_content = assistant_msg,
                        conv_timestamp = utcnow_assistant_turn env\<rparr>]\<rparr>
             \<and> (\<forall>k. AI_PROVIDER env = ''openai'' \<and> getenv_OPENAI_API_KEY env = Some k
                    \<and> k \<noteq> [] \<and> k \<noteq> ''your-openai-api-key-here''
                  \<longrightarrow> calls = [OpenAICall k messages])
             \<and> (\<forall>k. AI_PROVIDER env = ''cohere'' \<and> getenv_COHERE_API_KEY env = Some k
                    \<and> k \<noteq> [] \<and> k \<noteq> ''your-cohere-api-key-here''
                  \<longrightarrow> calls = [CohereCall k (full_prompt messages (format_value env v))])
             \<and> ((AI_PROVIDER env = ''openai'' \<and> (getenv_OPENAI_API_KEY env = None
                      \<or> getenv_OPENAI_API_KEY env = Some []
                      \<or> getenv_OPENAI_API_KEY env = Some ''your-openai-api-key-here''))
                  \<or> (AI_PROVIDER env = ''cohere'' \<and> (getenv_COHERE_API_KEY env = None
                      \<or> getenv_COHERE_API_KEY env = Some []
                      \<or> getenv_COHERE_API_KEY env = Some ''your-cohere-api-key-here''))
                  \<or> (AI_PROVIDER env \<noteq> ''openai'' \<and> AI_PROVIDER env \<noteq> ''cohere'')
                  \<longrightarrow> calls = [])"
    using p e' d' c by blast
  qed
  show ?thesis
    using first second third by blast
qed

theorem user_turn_committed_before_provider_call_witness:
  "request_input (Some (JDict [(''input'', JStr ''hello'')])) = Inr (JStr ''hello'')
   \<and> py_truthy (JStr ''hello'')
   \<and> bind_text example_env (JStr ''hello'') = Inr ''hello''
   \<and> known_timezone example_env (timezone_or_utc example_user)
   \<and> AI_PROVIDER example_env = ''openai''
   \<and> getenv_OPENAI_API_KEY example_env = Some ''sk-example''
   \<and> snd (snd (ai example_env example_user (Some (JDict [(''input'', JStr ''hello'')])) example_db))
       = [Commit \<lparr>conv_user_id = 1, conv_role = ''user'', conv_content = ''hello'',
                  conv_timestamp = 100\<rparr>,
          OpenAICall ''sk-example''
            (build_messages example_env example_user ''UTC''
               (example_db\<lparr>conversations := conversations example_db
                  @ [\<lparr>conv_user_id = 1, conv_role = ''user'', conv_content = ''hello'',
                      conv_timestamp = 100\<rparr>]\<rparr>)),
          Commit \<lparr>conv_user_id = 1, conv_role = ''assistant'',
                  conv_content = ''[{\"command\": \"MESSAGE\", \"text\": \"Hello\"}, 7]'',
                  conv_timestamp = 101\<rparr>]
   \<and> fst (snd (ai example_env example_user (Some (JDict [(''input'', JStr ''hello'')])) example_db))
       = example_db\<lparr>conversations := conversations example_db
           @ [\<lparr>conv_user_id = 1, conv_role = ''user'', conv_content = ''hello'',
               conv_timestamp = 100\<rparr>,
              \<lparr>conv_user_id = 1, conv_role = ''assistant'',
               conv_content = ''[{\"command\": \"MESSAGE\", \"text\": \"Hello\"}, 7]'',
               conv_timestamp = 101\<rparr>]\<rparr>
   \<and> snd (snd (ai example_env (example_user\<lparr>user_timezone := Some ''Mars/Phobos''\<rparr>)
                  (Some (JDict [(''input'', JStr ''hello'')])) example_db))
       = [Commit \<lparr>conv_user_id = 1, conv_role = ''user'', conv_content = ''hello'',
                  conv_timestamp = 100\<rparr>]
   \<and> snd (snd (ai example_env example_user (Some (JDict [(''input'', JInt 5)])) example_db)) = []"
proof -
  let ?rj = "Some (JDict [(''input'', JStr ''hello'')])"
  let ?run = "ai example_env example_user ?rj example_db"
  let ?mars = "example_user\<lparr>user_timezone := Some ''Mars/Phobos''\<rparr>"
  let ?run2 = "ai example_env ?mars ?rj example_db"
  let ?rj3 = "Some (JDict [(''input'', JInt 5)])"
  let ?run3 = "ai example_env example_user ?rj3 example_db"
  let ?ur = "\<lparr>conv_user_id = 1, conv_role = ''user'', conv_content = ''hello'',
             conv_timestamp = 100\<rparr>"
  let ?msgs = "build_messages example_env example_user ''UTC''
                 (example_db\<lparr>conversations := conversations example_db @ [?ur]\<rparr>)"
  let ?am = "''[{\"command\": \"MESSAGE\", \"text\": \"Hello\"}, 7]''"
  have i: "request_input ?rj = Inr (JStr ''hello'')"
    by (simp add: request_input_def)
  have t: "py_truthy (JStr ''hello'')"
    by simp
  have b: "bind_text example_env (JStr ''hello'') = Inr ''hello''"
    by (simp add: bind_text_def)
  have f: "format_value example_env (JStr ''hello'') = ''hello''"
    by (simp add: format_value_def)
  have z: "known_timezone example_env (timezone_or_utc example_user)"
    and zn: "timezone_or_utc example_user = ''UTC''"
    by (simp_all add: example_env_def example_user_def timezone_or_utc_def)
  have k: "AI_PROVIDER example_env = ''openai''"
    "getenv_OPENAI_API_KEY example_env = Some ''sk-example''"
    "''sk-example'' \<noteq> []" "''sk-example'' \<noteq> ''your-openai-api-key-here''"
    by (simp_all add: example_env_def)
  have c: "user_id example_user = 1" "utcnow_user_turn example_env = 100"
    "utcnow_assistant_turn example_env = 101"
    by (simp_all add: example_env_def example_user_def)
  have a: "?run = (fst ?run, fst (snd ?run), snd (snd ?run))"
    by simp
  have p: "fst (provider example_env ?msgs ''hello'') = Inr ?am"
    by code_simp
  have run1: "snd (snd ?run) = [Commit ?ur, OpenAICall ''sk-example'' ?msgs,
        Commit \<lparr>conv_user_id = 1, conv_role = ''assistant'', conv_content = ?am,
                conv_timestamp = 101\<rparr>]
      \<and> fst (snd ?run) = example_db\<lparr>conversations := conversations example_db
           @ [?ur, \<lparr>conv_user_id = 1, conv_role = ''assistant'', conv_content = ?am,
                    conv_timestamp = 101\<rparr>]\<rparr>"
    using user_turn_committed_before_provider_call [OF i t a, THEN conjunct2, THEN conjunct2,
        rule_format, of "''hello''" ?msgs] b f z zn k c p
    by auto
  have i2: "request_input ?rj = Inr (JStr ''hello'')"
    by (simp add: request_input_def)
  have a2: "?run2 = (fst ?run2, fst (snd ?run2), snd (snd ?run2))"
    by simp
  have z2: "\<not> known_timezone example_env (timezone_or_utc ?mars)"
    by (simp add: example_env_def example_user_def timezone_or_utc_def)
  have c2: "user_id ?mars = 1"
    by (simp add: example_user_def)
  have run2: "snd (snd ?run2) = [Commit ?ur]"
    using user_turn_committed_before_provider_call [OF i2 t a2, THEN conjunct2, THEN conjunct1,
        rule_format, of "''hello''"] b z2 c c2
    by auto
  have i3: "request_input ?rj3 = Inr (JInt 5)"
    by (simp add: request_input_def)
  have t3: "py_truthy (JInt 5)"
    by simp
  have a3: "?run3 = (fst ?run3, fst (snd ?run3), snd (snd ?run3))"
    by simp
  have b3: "bind_text example_env (JInt 5) = Inl (OtherException ''type is not supported'')"
    by (simp add: bind_text_def example_env_def)
  have run3: "snd (snd ?run3) = []"
    using user_turn_committed_before_provider_call [OF i3 t3 a3, THEN conjunct1, rule_format,
        of "OtherException ''type is not supported''"] b3
    by simp
  show ?thesis
    using i t b z k(1,2) run1 run2 run3 by simp
qed

subsection \<open>Elements that are not objects\<close>

text \<open>
  C10. If the assistant turn that a run commits has a bracketed span that decodes to a
  list with an element that is not an object (a number, a string, a list, a boolean,
  null), the repair of the dates raises on that element, the \<open>except\<close> of the handler
  catches it, and the caller receives the generic 500 answer instead of a commands list.
\<close>

theorem non_object_element_server_error:
  assumes "ai env u rj db = (r, db', effs)"
    and "Commit row \<in> set effs" and "conv_role row = ''assistant''"
    and "re_search (conv_content row) = Some j" and "loads env j = Some (JList xs)"
    and "x \<in> set xs" and "\<not> is_dict x"
  shows "r = Response 500 (JDict [(''error'', JStr ''Failed to process request'')])"
proof -
  have calls: "\<And>messages user_input msg calls.
      provider env messages user_input = (Inr msg, calls)
        \<Longrightarrow> calls = [] \<or> (\<exists>c. calls = [c] \<and> is_provider_call c)"
    using provider_cases by (metis Pair_inject)
  have user_role: "\<And>t. conv_role (user_conversation env u t) \<noteq> ''assistant''"
    by (simp add: user_conversation_def)
  have raises: "\<And>msg. conv_content row = msg \<Longrightarrow> \<exists>e. respond env msg = Inl e"
  proof -
    fix msg
    assume "conv_content row = msg"
    then have "parse_commands (loads env) msg = xs"
      using assms(4,5) by (simp add: parse_commands_def)
    moreover obtain e where "fix_dates xs = Inl e"
      using fix_dates_Inl_iff [of xs] assms(6,7) by blast
    ultimately show "\<exists>e. respond env msg = Inl e"
      by (simp add: respond_def)
  qed
  from ai_cases [OF assms(1)] show ?thesis
  proof (elim disjE exE conjE)
    fix v t
    assume "effs = [Commit (user_conversation env u t)]"
    then show ?thesis using assms(2,3) user_role by auto
  next
    fix v t msg calls
    assume p: "provider env (build_messages env u (timezone_or_utc u)
                      (add_commit (user_conversation env u t) db))
         (format_value env v) = (Inr msg, calls)"
      and e: "effs = Commit (user_conversation env u t) # calls
                @ [Commit (assistant_conversation env u msg)]"
      and r: "r = (case respond env msg of
                     Inl e \<Rightarrow> error_response 500 ''Failed to process request''
                   | Inr ok \<Rightarrow> ok)"
    have "Commit row \<notin> set calls"
      using calls [OF p] by auto
    then have "row = assistant_conversation env u msg"
      using assms(2,3) e user_role by auto
    then have "conv_content row = msg"
      by (simp add: assistant_conversation_def)
    then obtain e where "respond env msg = Inl e"
      using raises by blast
    then show ?thesis
      using r by (simp add: error_response_def)
  qed (use assms(2) in auto)
qed

theorem non_object_element_server_error_witness:
  "Commit (turn 1 ''assistant'' ''[{\"command\": \"MESSAGE\", \"text\": \"Hello\"}, 7]'' 101)
     \<in> set (snd (snd (ai example_env example_user (Some (JDict [(''input'', JStr ''hello'')]))
                        example_db)))
   \<and> re_search ''[{\"command\": \"MESSAGE\", \"text\": \"Hello\"}, 7]''
       = Some ''[{\"command\": \"MESSAGE\", \"text\": \"Hello\"}, 7]''
   \<and> json_loads ''[{\"command\": \"MESSAGE\", \"text\": \"Hello\"}, 7]''
       = Some (JList [JDict [(''command'', JStr ''MESSAGE''), (''text'', JStr ''Hello'')], JInt 7])
   \<and> \<not> is_dict (JInt 7)
   \<and> fst (ai example_env example_user (Some (JDict [(''input'', JStr ''hello'')])) example_db)
       = Response 500 (JDict [(''error'', JStr ''Failed to process request'')])"
proof -
  let ?rj = "Some (JDict [(''input'', JStr ''hello'')])"
  let ?run = "ai example_env example_user ?rj example_db"
  let ?msg = "''[{\"command\": \"MESSAGE\", \"text\": \"Hello\"}, 7]''"
  let ?row = "turn 1 ''assistant'' ?msg 101"
  have a: "?run = (fst ?run, fst (snd ?run), snd (snd ?run))"
    by simp
  have c: "Commit ?row \<in> set (snd (snd ?run))"
    by code_simp
  have ro: "conv_role ?row = ''assistant''"
    by (simp add: turn_def)
  have s: "re_search (conv_content ?row) = Some ?msg"
    by code_simp
  have l: "loads example_env ?msg
      = Some (JList [JDict [(''command'', JStr ''MESSAGE''), (''text'', JStr ''Hello'')], JInt 7])"
    by code_simp
  have m: "JInt 7 \<in> set [JDict [(''command'', JStr ''MESSAGE''), (''text'', JStr ''Hello'')], JInt 7]"
    by simp
  have d: "\<not> is_dict (JInt 7)"
    by simp
  have j: "json_loads ?msg
      = Some (JList [JDict [(''command'', JStr ''MESSAGE''), (''text'', JStr ''Hello'')], JInt 7])"
    by code_simp
  have s': "re_search ?msg = Some ?msg"
    by code_simp
  show ?thesis
    using c s' j d non_object_element_server_error [OF a c ro s l m d] by simp
qed

subsection \<open>Empty command lists\<close>

lemma fix_dates_Nil: "fix_dates xs = Inr [] \<longleftrightarrow> xs = []"
  by (cases xs) (auto split: sum.splits)

lemma parse_commands_Nil:
  "parse_commands decoder msg = []
     \<longleftrightarrow> (\<exists>j. re_search msg = Some j \<and> decoder j = Some (JList []))"
  by (auto simp: parse_commands_def split: option.splits json.splits)

text \<open>
  C1, as amended. For every raw assistant text: when structured extraction fails (there
  is no bracketed span, or the decoder gives no list for it) the handler returns
  exactly one MESSAGE command that wraps the raw text; and whenever the handler returns
  a commands list at all, that list is empty only if the bracketed span decodes to the
  empty array.
\<close>

theorem commands_empty_only_for_empty_array:
  "((re_search msg = None \<or> (\<exists>j. re_search msg = Some j \<and> (\<forall>xs. loads env j \<noteq> Some (JList xs))))
      \<longrightarrow> respond env msg
            = Inr (Response 200 (JDict [(''commands'',
                JList [JDict [(''command'', JStr ''MESSAGE''), (''text'', JStr msg)]])])))
   \<and> (\<forall>r. respond env msg = Inr r
        \<longrightarrow> (\<exists>cmds. r = Response 200 (JDict [(''commands'', JList cmds)])
              \<and> (cmds = [] \<longleftrightarrow> (\<exists>j. re_search msg = Some j \<and> loads env j = Some (JList [])))))"
proof (intro conjI impI allI)
  assume "re_search msg = None
          \<or> (\<exists>j. re_search msg = Some j \<and> (\<forall>xs. loads env j \<noteq> Some (JList xs)))"
  then have "parse_commands (loads env) msg = [message_command msg]"
  proof
    assume "re_search msg = None"
    then show ?thesis
      by (simp add: parse_commands_def)
  next
    assume "\<exists>j. re_search msg = Some j \<and> (\<forall>xs. loads env j \<noteq> Some (JList xs))"
    then obtain j where j: "re_search msg = Some j" "\<forall>xs. loads env j \<noteq> Some (JList xs)"
      by blast
    show ?thesis
    proof (cases "loads env j")
      case None
      with j(1) show ?thesis
        by (simp add: parse_commands_def)
    next
      case (Some v)
      with j show ?thesis
        by (cases v) (simp_all add: parse_commands_def)
    qed
  qed
  then show "respond env msg
            = Inr (Response 200 (JDict [(''commands'',
                JList [JDict [(''command'', JStr ''MESSAGE''), (''text'', JStr msg)]])]))"
    using respond_message [of env msg] by (simp add: message_command_def)
next
  fix r
  assume ok: "respond env msg = Inr r"
  then obtain cmds where f: "fix_dates (parse_commands (loads env) msg) = Inr cmds"
    and r: "r = Response 200 (JDict [(''commands'', JList cmds)])"
    by (auto simp: respond_def split: sum.splits)
  have "cmds = [] \<longleftrightarrow> parse_commands (loads env) msg = []"
  proof
    assume "cmds = []"
    then have "fix_dates (parse_commands (loads env) msg) = Inr []"
      using f by simp
    then show "parse_commands (loads env) msg = []"
      by (simp only: fix_dates_Nil)
  next
    assume "parse_commands (loads env) msg = []"
    then show "cmds = []"
      using f by simp
  qed
  then have "cmds = [] \<longleftrightarrow> (\<exists>j. re_search msg = Some j \<and> loads env j = Some (JList []))"
    by (simp only: parse_commands_Nil)
  with r show "\<exists>cmds. r = Response 200 (JDict [(''commands'', JList cmds)])
              \<and> (cmds = [] \<longleftrightarrow> (\<exists>j. re_search msg = Some j \<and> loads env j = Some (JList [])))"
    by blast
qed

theorem commands_empty_only_for_empty_array_witness:
  "re_search ''It is done.'' = None
   \<and> respond example_env ''It is done.''
       = Inr (Response 200 (JDict [(''commands'',
           JList [JDict [(''command'', JStr ''MESSAGE''), (''text'', JStr ''It is done.'')]])]))"
proof -
  have n: "re_search ''It is done.'' = None"
    by simp
  show ?thesis
    using n commands_empty_only_for_empty_array [of "''It is done.''" example_env] by blast
qed

text \<open>
  C1, as stated, fails: for the assistant text \<open>[]\<close> the parser yields no command and
  the caller receives an empty commands list.
\<close>

theorem empty_array_empty_commands:
  "parse_commands json_loads ''[]'' = []
   \<and> respond example_env ''[]'' = Inr (Response 200 (JDict [(''commands'', JList [])]))"
  by code_simp

subsection \<open>Prompt assembly\<close>

lemma sorted_desc_rev:
  fixes f :: "'a \<Rightarrow> int"
  shows "sorted (map (\<lambda>r. - f r) xs) \<Longrightarrow> sorted (map f (rev xs))"
  by (simp add: sorted_map sorted_wrt_rev)

lemma order_by_desc_mset: "mset (order_by_desc column rows) = mset rows"
  by (simp add: order_by_desc_def)

lemma order_by_desc_sorted: "sorted (map (\<lambda>r. - column r) (order_by_desc column rows))"
  by (simp add: order_by_desc_def)

lemma sorted_take_drop_le:
  fixes f :: "'a \<Rightarrow> int"
  assumes "sorted (map (\<lambda>r. - f r) xs)" and "h \<in> set (take n xs)" and "old \<in> set (drop n xs)"
  shows "f old \<le> f h"
proof -
  have "sorted (map (\<lambda>r. - f r) (take n xs) @ map (\<lambda>r. - f r) (drop n xs))"
    using assms(1) by (metis append_take_drop_id map_append)
  then have "- f h \<le> - f old"
    using assms(2,3) by (auto simp: sorted_append)
  then show ?thesis by simp
qed

text \<open>
  C7. For every conversation log in which the user has more than five turns, the
  prompt is the system instruction, then the synthetic context message (a \<open>user\<close>
  message that starts with the current time), then exactly five turns of that user,
  oldest first; they are the most recent ones: every turn of the user that is left
  out is no younger than any turn that is included.
\<close>

theorem prompt_has_five_most_recent_turns:
  assumes "5 < length (filter (\<lambda>c. conv_user_id c = user_id u) (conversations db))"
  shows "(\<exists>rest. build_messages env u tz db
            = Message ''system'' get_ai_prompt
              # Message ''user'' (''Current time: '' @ rest)
              # map (\<lambda>c. Message (conv_role c) (conv_content c))
                    (recent_conversations (user_id u) db))
       \<and> length (recent_conversations (user_id u) db) = 5
       \<and> sorted (map conv_timestamp (recent_conversations (user_id u) db))
       \<and> mset (recent_conversations (user_id u) db)
            \<subseteq># mset (filter (\<lambda>c. conv_user_id c = user_id u) (conversations db))
       \<and> (\<forall>old \<in># mset (filter (\<lambda>c. conv_user_id c = user_id u) (conversations db))
                       - mset (recent_conversations (user_id u) db).
            \<forall>h \<in> set (recent_conversations (user_id u) db).
              conv_timestamp old \<le> conv_timestamp h)"
proof -
  define rows where "rows = filter (\<lambda>c. conv_user_id c = user_id u) (conversations db)"
  define s where "s = order_by_desc conv_timestamp rows"
  have hist: "recent_conversations (user_id u) db = rev (take 5 s)"
    by (simp add: recent_conversations_def s_def rows_def)
  have ms: "mset s = mset rows"
    by (simp add: s_def order_by_desc_mset)
  then have "length s = length rows"
    by (metis size_mset)
  then have len: "length (take 5 s) = 5"
    using assms by (simp add: rows_def)
  have so: "sorted (map (\<lambda>r. - conv_timestamp r) s)"
    by (simp add: s_def order_by_desc_sorted)
  then have "sorted (map (\<lambda>r. - conv_timestamp r) (take 5 s))"
    by (simp add: take_map [symmetric] sorted_wrt_take)
  then have asc: "sorted (map conv_timestamp (rev (take 5 s)))"
    by (rule sorted_desc_rev)
  have split: "mset rows = mset (take 5 s) + mset (drop 5 s)"
    using ms by (metis append_take_drop_id mset_append)
  then have sub: "mset (rev (take 5 s)) \<subseteq># mset rows"
    by simp
  have diff: "mset rows - mset (take 5 s) = mset (drop 5 s)"
    using split by simp
  have recent: "\<forall>old \<in># mset rows - mset (rev (take 5 s)). \<forall>h \<in> set (rev (take 5 s)).
      conv_timestamp old \<le> conv_timestamp h"
  proof (intro ballI)
    fix old h
    assume "old \<in># mset rows - mset (rev (take 5 s))" and "h \<in> set (rev (take 5 s))"
    then have "old \<in> set (drop 5 s)" and "h \<in> set (take 5 s)"
      using diff by simp_all
    then show "conv_timestamp old \<le> conv_timestamp h"
      using sorted_take_drop_le [OF so] by blast
  qed
  have msgs: "\<exists>rest. build_messages env u tz db
            = Message ''system'' get_ai_prompt
              # Message ''user'' (''Current time: '' @ rest)
              # map (\<lambda>c. Message (conv_role c) (conv_content c))
                    (recent_conversations (user_id u) db)"
    by (simp add: build_messages_def Let_def)
  show ?thesis
    using msgs len asc sub recent unfolding hist rows_def by simp
qed

theorem prompt_has_five_most_recent_turns_witness:
  "5 < length (filter (\<lambda>c. conv_user_id c = user_id example_user) (conversations example_db))
   \<and> recent_conversations (user_id example_user) example_db
       = [turn 1 ''user'' ''c'' 30, turn 1 ''assistant'' ''d'' 40, turn 1 ''user'' ''e'' 50,
          turn 1 ''assistant'' ''f'' 60, turn 1 ''user'' ''g'' 70]
   \<and> length (recent_conversations (user_id example_user) example_db) = 5
   \<and> sorted (map conv_timestamp (recent_conversations (user_id example_user) example_db))"
proof -
  have h: "5 < length (filter (\<lambda>c. conv_user_id c = user_id example_user)
                        (conversations example_db))"
    by code_simp
  have v: "recent_conversations (user_id example_user) example_db
       = [turn 1 ''user'' ''c'' 30, turn 1 ''assistant'' ''d'' 40, turn 1 ''user'' ''e'' 50,
          turn 1 ''assistant'' ''f'' 60, turn 1 ''user'' ''g'' 70]"
    by code_simp
  show ?thesis
    using h v prompt_has_five_most_recent_turns [OF h, of example_env "''UTC''"] by blast
qed

subsection \<open>The decoder consumes its input and never runs out of fuel\<close>

lemma skip_ws_le: "length (skip_ws s) \<le> length s"
  by (simp add: skip_ws_def length_dropWhile_le)

lemma skip_ws_Cons: "skip_ws s = d # ds \<Longrightarrow> length ds < length s"
  using skip_ws_le [of s] by simp

lemma skip_ws_less: "k < length (skip_ws s) \<Longrightarrow> k < length s"
  using skip_ws_le [of s] by simp

lemma scanstring_shorter: "scanstring s = Some (str, r) \<Longrightarrow> length r < length s"
proof (induction s arbitrary: str r rule: scanstring.induct)
  case 1
  then show ?case by simp
next
  case (2 c cs)
  then show ?case
    by (fastforce split: if_splits list.splits option.splits)
qed

lemma dropWhile_le_Suc:
  "length (dropWhile P xs) \<le> Suc (length xs)"
  "length (dropWhile P xs) \<le> Suc (Suc (length xs))"
  "length (dropWhile P xs) < Suc (length xs)"
  "length (dropWhile P xs) < Suc (Suc (length xs))"
  using length_dropWhile_le [of P xs] by simp_all

lemma match_integer_shorter: "match_integer s = Some (neg, ip, r) \<Longrightarrow> length r < length s"
  by (auto simp: match_integer_def Let_def length_dropWhile_le dropWhile_le_Suc
      split: list.splits if_splits prod.splits)

lemma match_frac_le: "match_frac s = (fp, r) \<Longrightarrow> length r \<le> length s"
  by (auto simp: match_frac_def length_dropWhile_le dropWhile_le_Suc split: list.splits if_splits)

lemma match_exp_le: "match_exp s = (ex, r) \<Longrightarrow> length r \<le> length s"
  by (auto simp: match_exp_def Let_def length_dropWhile_le dropWhile_le_Suc
      split: list.splits if_splits prod.splits)

lemma scan_number_shorter: "scan_number s = Some (v, r) \<Longrightarrow> length r < length s"
proof -
  assume a: "scan_number s = Some (v, r)"
  then obtain neg ip s1 where m: "match_integer s = Some (neg, ip, s1)"
    by (auto simp: scan_number_def split: option.splits)
  obtain fp s2 where f: "match_frac s1 = (fp, s2)" by fastforce
  obtain ex s3 where e: "match_exp s2 = (ex, s3)" by fastforce
  have "r = s3"
    using a m f e by (auto simp: scan_number_def Let_def split: if_splits)
  then show ?thesis
    using match_integer_shorter [OF m] match_frac_le [OF f] match_exp_le [OF e] by simp
qed


lemma scan_shorter:
  "(\<forall>s v r. scan_once n s = Parsed v r \<longrightarrow> length r < length s)
   \<and> (\<forall>s vs r. array_items n s = Parsed vs r \<longrightarrow> length r < length s)
   \<and> (\<forall>s ps r. object_items n s = Parsed ps r \<longrightarrow> length r < length s)"
proof (induction n)
  case 0
  show ?case by simp
next
  case (Suc n)
  have once: "\<And>s v r. scan_once n s = Parsed v r \<Longrightarrow> length r < length s"
    and items: "\<And>s vs r. array_items n s = Parsed vs r \<Longrightarrow> length r < length s"
    and members: "\<And>s ps r. object_items n s = Parsed ps r \<Longrightarrow> length r < length s"
    using Suc.IH by blast+
  have a: "length r < length s" if h: "scan_once (Suc n) s = Parsed v r" for s v r
  proof (cases s)
    case Nil
    with h show ?thesis by simp
  next
    case (Cons c cs)
    consider (str) "c = CHR 0x22" | (obj) "c \<noteq> CHR 0x22" "c = CHR ''{''"
      | (arr) "c \<noteq> CHR 0x22" "c \<noteq> CHR ''{''" "c = CHR ''[''"
      | (lit) "c \<noteq> CHR 0x22" "c \<noteq> CHR ''{''" "c \<noteq> CHR ''[''"
      by blast
    then show ?thesis
    proof cases
      case str
      with h Cons show ?thesis
        by (auto split: option.splits dest: scanstring_shorter)
    next
      case obj
      with h Cons show ?thesis
        by (auto split: list.splits if_splits scan.splits
            dest!: skip_ws_Cons members)
    next
      case arr
      with h Cons show ?thesis
        by (auto split: list.splits if_splits scan.splits
            dest!: skip_ws_Cons items)
    next
      case lit
      with h Cons show ?thesis
        by (auto split: if_splits option.splits dest: scan_number_shorter)
    qed
  qed
  have b: "length r < length s" if h: "array_items (Suc n) s = Parsed vs r" for s vs r
    using h
    by (auto split: scan.splits list.splits if_splits dest!: once skip_ws_Cons items skip_ws_less)
  have c: "length r < length s" if h: "object_items (Suc n) s = Parsed ps r" for s ps r
    using h
    by (auto split: scan.splits list.splits if_splits option.splits
        dest!: once skip_ws_Cons members scanstring_shorter skip_ws_less)
  show ?case using a b c by blast
qed


lemmas once_shorter = scan_shorter [THEN conjunct1, rule_format]

lemma scan_fuel:
  "(\<forall>s. 2 * length s < n \<longrightarrow> scan_once n s \<noteq> NoFuel)
   \<and> (\<forall>s. 2 * length s + 1 < n \<longrightarrow> array_items n s \<noteq> NoFuel)
   \<and> (\<forall>s. 2 * length s < n \<longrightarrow> object_items n s \<noteq> NoFuel)"
proof (induction n)
  case 0
  show ?case by simp
next
  case (Suc n)
  have once: "\<And>s. 2 * length s < n \<Longrightarrow> scan_once n s \<noteq> NoFuel"
    and items: "\<And>s. 2 * length s + 1 < n \<Longrightarrow> array_items n s \<noteq> NoFuel"
    and members: "\<And>s. 2 * length s < n \<Longrightarrow> object_items n s \<noteq> NoFuel"
    using Suc.IH by blast+
  have a: "scan_once (Suc n) s \<noteq> NoFuel" if h: "2 * length s < Suc n" for s
  proof (cases s)
    case Nil
    then show ?thesis by simp
  next
    case (Cons c cs)
    have obj: "object_items n ds \<noteq> NoFuel" if "skip_ws cs = d # ds" for d ds
      using skip_ws_Cons [OF that] h Cons by (intro members) simp
    have arr: "array_items n (d # ds) \<noteq> NoFuel" if "skip_ws cs = d # ds" for d ds
      using skip_ws_le [of cs] that h Cons by (intro items) simp
    consider (str) "c = CHR 0x22" | (ob) "c \<noteq> CHR 0x22" "c = CHR ''{''"
      | (ar) "c \<noteq> CHR 0x22" "c \<noteq> CHR ''{''" "c = CHR ''[''"
      | (lit) "c \<noteq> CHR 0x22" "c \<noteq> CHR ''{''" "c \<noteq> CHR ''[''"
      by blast
    then show ?thesis
    proof cases
      case str
      with Cons show ?thesis
        by (simp split: option.splits)
    next
      case ob
      show ?thesis
      proof (cases "skip_ws cs")
        case Nil
        with Cons ob show ?thesis by simp
      next
        case inner: (Cons d ds)
        with Cons ob obj [OF inner] show ?thesis
          by (cases "object_items n ds") simp_all
      qed
    next
      case ar
      show ?thesis
      proof (cases "skip_ws cs")
        case Nil
        with Cons ar show ?thesis by simp
      next
        case inner: (Cons d ds)
        with Cons ar arr [OF inner] show ?thesis
          by (cases "array_items n (d # ds)") simp_all
      qed
    next
      case lit
      with Cons show ?thesis
        by (simp split: option.splits)
    qed
  qed
  have b: "array_items (Suc n) s \<noteq> NoFuel" if h: "2 * length s + 1 < Suc n" for s
  proof (cases "scan_once n s")
    case (Parsed v rest)
    have short: "length rest < length s"
      using once_shorter [OF Parsed] .
    have next_items: "array_items n (skip_ws ds) \<noteq> NoFuel" if "skip_ws rest = d # ds" for d ds
      using skip_ws_Cons [OF that] skip_ws_le [of ds] short h by (intro items) simp
    show ?thesis
      using Parsed next_items by (auto split: list.splits scan.splits)
  next
    case Invalid
    then show ?thesis by simp
  next
    case NoFuel
    moreover have "scan_once n s \<noteq> NoFuel"
      using h by (intro once) simp
    ultimately show ?thesis by simp
  qed
  have c: "object_items (Suc n) s \<noteq> NoFuel" if h: "2 * length s < Suc n" for s
  proof (cases "scanstring s")
    case None
    then show ?thesis by simp
  next
    case (Some kr)
    obtain key after_key where kr: "kr = (key, after_key)"
      by (cases kr)
    have k: "length after_key < length s"
      using scanstring_shorter Some kr by blast
    show ?thesis
    proof (cases "skip_ws after_key")
      case Nil
      with Some kr show ?thesis by simp
    next
      case (Cons c cs)
      have cs: "length cs < length after_key"
        using skip_ws_Cons [OF Cons] .
      show ?thesis
      proof (cases "scan_once n (skip_ws cs)")
        case (Parsed v rest)
        have short: "length rest < length (skip_ws cs)"
          using once_shorter [OF Parsed] .
        have next_members: "object_items n qs \<noteq> NoFuel"
          if "skip_ws rest = d # ds" "skip_ws ds = q # qs" for d ds q qs
          using skip_ws_Cons [OF that(1)] skip_ws_Cons [OF that(2)] skip_ws_le [of cs] short cs k h
          by (intro members) simp
        show ?thesis
          using Some kr Cons Parsed next_members by (auto split: list.splits scan.splits)
      next
        case Invalid
        with Some kr Cons show ?thesis by simp
      next
        case NoFuel
        moreover have "scan_once n (skip_ws cs) \<noteq> NoFuel"
          using skip_ws_le [of cs] cs k h by (intro once) simp
        ultimately show ?thesis by simp
      qed
    qed
  qed
  show ?case using a b c by blast
qed

text \<open>The fuel that \<open>json_loads\<close> gives is enough: it never runs out.\<close>

lemma json_loads_fuel: "scan_once (2 * length s + 1) (skip_ws s) \<noteq> NoFuel"
  using scan_fuel [of "2 * length s + 1"] skip_ws_le [of s] by simp

lemma json_loads_None_iff:
  "json_loads s = None \<longleftrightarrow>
     scan_once (2 * length s + 1) (skip_ws s) = Invalid
     \<or> (\<exists>obj rest. scan_once (2 * length s + 1) (skip_ws s) = Parsed obj rest \<and> skip_ws rest \<noteq> [])"
  using json_loads_fuel [of s]
  by (cases "scan_once (2 * length s + 1) (skip_ws s)") (auto simp: json_loads_def)

subsection \<open>The scheduling scenario\<close>

text \<open>
  The provider answers with an ADD command whose dates have a blank for the separator,
  and a MESSAGE command: the caller receives both, the dates repaired.
\<close>

lemma scheduling_scenario:
  "respond example_env
     ''[{\"command\":\"ADD\",\"start\":\"2025-07-31 14:00:00\",\"end\":\"2025-07-31 15:00:00\",\"title\":\"Meeting\"},{\"command\":\"MESSAGE\",\"text\":\"Scheduled.\"}]''
   = Inr (Response 200 (JDict [(''commands'',
       JList [JDict [(''command'', JStr ''ADD''), (''start'', JStr ''2025-07-31T14:00:00''),
                     (''end'', JStr ''2025-07-31T15:00:00''), (''title'', JStr ''Meeting'')],
              JDict [(''command'', JStr ''MESSAGE''), (''text'', JStr ''Scheduled.'')]])]))"
  by code_simp

end
